theory Spec2Isabelle
  imports Complex_Main "HOL-Library.Sublist" "HOL-Library.Word"
begin

section \<open>Python values\<close>

text \<open>
  The markup engine of \<^verbatim>\<open>app.py\<close> is a family of pure functions from a settings
  dictionary and base64 image strings to an HTML document. Strings are \<^typ>\<open>string\<close>
  (a non-ASCII character of a Python \<^verbatim>\<open>str\<close> stands as its UTF-8 bytes, the encoding the
  document declares), a dictionary is a map, and the values a dictionary holds are the
  kinds the request handlers store: \<^verbatim>\<open>None\<close>, booleans, integers and strings.
\<close>

datatype pyval = PNone | PBool bool | PInt int | PStr string

text \<open>
  Local numbers of the generators: \<^verbatim>\<open>0\<close> is an \<^verbatim>\<open>int\<close>, \<^verbatim>\<open>4.75\<close> and \<^verbatim>\<open>0.125\<close> are
  floats. A float is held as the rational it denotes: every float the generators compute
  (sums and doubles of 4.75, 6.75, 0.125 and 0) is a multiple of 1/8 below 16, so the
  IEEE operations are exact on them and no rounding has to be modelled.
\<close>

datatype pynum = PyInt int | PyFloat rat

fun num_val :: "pynum \<Rightarrow> rat" where
  "num_val (PyInt i) = of_int i"
| "num_val (PyFloat x) = x"

text \<open>\<^verbatim>\<open>a + b\<close> and \<^verbatim>\<open>a * b\<close>: an int only when both operands are ints.\<close>

fun num_add :: "pynum \<Rightarrow> pynum \<Rightarrow> pynum" where
  "num_add (PyInt a) (PyInt b) = PyInt (a + b)"
| "num_add a b = PyFloat (num_val a + num_val b)"

fun num_mul :: "pynum \<Rightarrow> pynum \<Rightarrow> pynum" where
  "num_mul (PyInt a) (PyInt b) = PyInt (a * b)"
| "num_mul a b = PyFloat (num_val a * num_val b)"

text \<open>\<^verbatim>\<open>a > b\<close> compares the numeric values.\<close>

definition num_gt :: "pynum \<Rightarrow> pynum \<Rightarrow> bool" where
  "num_gt a b = (num_val b < num_val a)"

subsection \<open>Truthiness and formatting\<close>

text \<open>\<^verbatim>\<open>if v:\<close> and \<^verbatim>\<open>a and b\<close> test the truth value of a Python object.\<close>

fun py_truthy :: "pyval \<Rightarrow> bool" where
  "py_truthy PNone = False"
| "py_truthy (PBool b) = b"
| "py_truthy (PInt i) = (i \<noteq> 0)"
| "py_truthy (PStr s) = (s \<noteq> [])"

definition digit_char :: "nat \<Rightarrow> char" where
  "digit_char n = ''0123456789'' ! n"

fun show_nat :: "nat \<Rightarrow> string" where
  "show_nat n = (if n < 10 then [digit_char n] else show_nat (n div 10) @ [digit_char (n mod 10)])"

declare show_nat.simps [simp del]

definition show_int :: "int \<Rightarrow> string" where
  "show_int i = (if i < 0 then ''-'' @ show_nat (nat (- i)) else show_nat (nat i))"

text \<open>
  The digits after the decimal point of a fraction in \<open>[0, 1)\<close>, at most \<open>k\<close> of them.
\<close>

fun frac_digits :: "nat \<Rightarrow> rat \<Rightarrow> string" where
  "frac_digits 0 r = []"
| "frac_digits (Suc k) r =
     (if r = 0 then []
      else (let d = \<lfloor>r * 10\<rfloor> in digit_char (nat d) # frac_digits k (r * 10 - of_int d)))"

text \<open>
  \<^verbatim>\<open>repr\<close> of a float, which an f-string field prints: the shortest decimal that reads
  back as the same float, always with a fractional part. For a float whose exact decimal
  expansion has at most 15 significant digits and whose magnitude is in
  \<open>[10\<^sup>-\<^sup>4, 10\<^sup>1\<^sup>6)\<close> or zero, that is the exact expansion, which is what this function
  prints; all floats of the generators are such.
\<close>

definition float_repr :: "rat \<Rightarrow> string" where
  "float_repr x =
     (let a = \<bar>x\<bar>; i = \<lfloor>a\<rfloor>; f = a - of_int i in
      (if x < 0 then ''-'' else '''') @ show_nat (nat i) @ ''.'' @
      (if f = 0 then ''0'' else frac_digits 17 f))"

text \<open>An f-string field \<^verbatim>\<open>{x}\<close> of a number.\<close>

fun py_str_num :: "pynum \<Rightarrow> string" where
  "py_str_num (PyInt i) = show_int i"
| "py_str_num (PyFloat x) = float_repr x"

text \<open>An f-string field \<^verbatim>\<open>{v}\<close> of a dictionary value or an argument.\<close>

fun py_format :: "pyval \<Rightarrow> string" where
  "py_format PNone = ''None''"
| "py_format (PBool b) = (if b then ''True'' else ''False'')"
| "py_format (PInt i) = show_int i"
| "py_format (PStr s) = s"

text \<open>\<^verbatim>\<open>sep.join(xs)\<close>\<close>

fun py_join :: "string \<Rightarrow> string list \<Rightarrow> string" where
  "py_join sep [] = []"
| "py_join sep [x] = x"
| "py_join sep (x # y # ys) = x @ sep @ py_join sep (y # ys)"

subsection \<open>Dictionaries\<close>

type_synonym settings = "string \<rightharpoonup> pyval"

text \<open>\<^verbatim>\<open>d.get(key, default)\<close>; \<^verbatim>\<open>d.get(key)\<close> is \<^verbatim>\<open>d.get(key, None)\<close>.\<close>

definition dict_get :: "(string \<rightharpoonup> 'v) \<Rightarrow> string \<Rightarrow> 'v \<Rightarrow> 'v" where
  "dict_get d key dflt = (case d key of None \<Rightarrow> dflt | Some v \<Rightarrow> v)"

subsection \<open>Base64\<close>

text \<open>
  \<^verbatim>\<open>base64.b64encode(data).decode('utf-8')\<close> of the standard library, with which
  \<^verbatim>\<open>get_icc_profile_base64\<close> turns the bytes of an ICC profile into the string stored
  under \<^verbatim>\<open>icc_base64\<close>: three bytes give four characters of the standard alphabet, and a
  last group of one or two bytes is padded with \<^verbatim>\<open>=\<close>.
\<close>

definition b64_char :: "nat \<Rightarrow> char" where
  "b64_char i =
     ''ABCDEFGHIJKLMNOPQRSTUVWXYZabcdefghijklmnopqrstuvwxyz0123456789+/'' ! (i mod 64)"

fun b64encode :: "8 word list \<Rightarrow> string" where
  "b64encode [] = []"
| "b64encode [a] =
     (let n = unat a * 65536 in
      [b64_char (n div 262144), b64_char (n div 4096), CHR ''='', CHR ''=''])"
| "b64encode [a, b] =
     (let n = unat a * 65536 + unat b * 256 in
      [b64_char (n div 262144), b64_char (n div 4096), b64_char (n div 64), CHR ''=''])"
| "b64encode (a # b # c # rest) =
     (let n = unat a * 65536 + unat b * 256 + unat c in
      [b64_char (n div 262144), b64_char (n div 4096), b64_char (n div 64), b64_char n]
      @ b64encode rest)"

text \<open>Line 62: the value \<^verbatim>\<open>get_icc_profile_base64\<close> returns for a profile file it finds.\<close>

definition icc_base64_of_bytes :: "8 word list \<Rightarrow> pyval" where
  "icc_base64_of_bytes bytes = PStr (b64encode bytes)"

section \<open>Fallback panels and common styles\<close>

text \<open>The module constants of lines 79 to 131 and the string \<^verbatim>\<open>get_common_styles\<close> returns.\<close>

definition BACK_PANEL_CONTENT :: "string" where
  \<open>BACK_PANEL_CONTENT =
     ''\<newline>'' @
     ''<div class="back-content">\<newline>'' @
     ''    <div class="logo-placeholder">'' @ [CHR 0xE2, CHR 0x9C, CHR 0xA6] @ ''</div>\<newline>'' @
     ''    <h2>Premium Greeting Card</h2>\<newline>'' @
     ''    <p class="tagline">Crafted with care, delivered with love</p>\<newline>'' @
     ''    <div class="details">\<newline>'' @
     ''        <p>Made in USA</p>\<newline>'' @
     ''        <p>Recycled Paper</p>\<newline>'' @
     ''        <p>www.example.com</p>\<newline>'' @
     ''    </div>\<newline>'' @
     ''    <div class="barcode-placeholder">\<newline>'' @
     ''        <div class="barcode-lines"></div>\<newline>'' @
     ''        <span>1234567890</span>\<newline>'' @
     ''    </div>\<newline>'' @
     ''</div>\<newline>''\<close>

definition INSIDE_LEFT_CONTENT :: "string" where
  \<open>INSIDE_LEFT_CONTENT =
     ''\<newline>'' @
     ''<div class="inside-content inside-left">\<newline>'' @
     ''    <p class="small-text">Panel 2 - Inside Left</p>\<newline>'' @
     ''</div>\<newline>''\<close>

definition INSIDE_RIGHT_CONTENT :: "string" where
  \<open>INSIDE_RIGHT_CONTENT =
     ''\<newline>'' @
     ''<div class="inside-content inside-right">\<newline>'' @
     ''    <div class="message-area">\<newline>'' @
     ''        <p class="preprinted-message">Wishing you all the best on your special day!</p>\<newline>'' @
     ''        <div class="signature-line">\<newline>'' @
     ''            <span>With love,</span>\<newline>'' @
     ''            <div class="line"></div>\<newline>'' @
     ''        </div>\<newline>'' @
     ''    </div>\<newline>'' @
     ''    <p class="small-text">Panel 3 - Inside Right</p>\<newline>'' @
     ''</div>\<newline>''\<close>

definition PANEL_4_CONTENT :: "string" where
  \<open>PANEL_4_CONTENT =
     ''\<newline>'' @
     ''<div class="back-content panel-4">\<newline>'' @
     ''    <div class="logo-placeholder">'' @ [CHR 0xE2, CHR 0x9C, CHR 0xA6] @ ''</div>\<newline>'' @
     ''    <h2>Premium Greeting Card</h2>\<newline>'' @
     ''    <p class="tagline">Crafted with care</p>\<newline>'' @
     ''    <div class="details">\<newline>'' @
     ''        <p>Made in USA '' @ [CHR 0xE2, CHR 0x80, CHR 0xA2] @ '' Recycled Paper</p>\<newline>'' @
     ''        <p>www.example.com</p>\<newline>'' @
     ''    </div>\<newline>'' @
     ''    <div class="barcode-placeholder">\<newline>'' @
     ''        <div class="barcode-lines"></div>\<newline>'' @
     ''        <span>1234567890</span>\<newline>'' @
     ''    </div>\<newline>'' @
     ''    <p class="small-text">Panel 4 - Back Cover</p>\<newline>'' @
     ''</div>\<newline>''\<close>

definition get_common_styles :: "string" where
  \<open>get_common_styles =
     ''\<newline>'' @
     ''        * {\<newline>'' @
     ''            margin: 0;\<newline>'' @
     ''            padding: 0;\<newline>'' @
     ''            box-sizing: border-box;\<newline>'' @
     ''        }\<newline>'' @
     ''        \<newline>'' @
     ''        .panel-content {\<newline>'' @
     ''            width: 100%;\<newline>'' @
     ''            height: 100%;\<newline>'' @
     ''            display: flex;\<newline>'' @
     ''            align-items: center;\<newline>'' @
     ''            justify-content: center;\<newline>'' @
     ''            overflow: hidden;\<newline>'' @
     ''            position: relative;\<newline>'' @
     ''        }\<newline>'' @
     ''        \<newline>'' @
     ''        .image {\<newline>'' @
     ''            width: 100%;\<newline>'' @
     ''            height: 100%;\<newline>'' @
     ''            object-fit: cover;\<newline>'' @
     ''            object-position: center;\<newline>'' @
     ''        }\<newline>'' @
     ''        \<newline>'' @
     ''        /* Back panel styles */\<newline>'' @
     ''        .back-content {\<newline>'' @
     ''            width: 100%;\<newline>'' @
     ''            height: 100%;\<newline>'' @
     ''            display: flex;\<newline>'' @
     ''            flex-direction: column;\<newline>'' @
     ''            align-items: center;\<newline>'' @
     ''            justify-content: center;\<newline>'' @
     ''            text-align: center;\<newline>'' @
     ''            padding: 0.5in;\<newline>'' @
     ''            font-family: 'Georgia', serif;\<newline>'' @
     ''            color: #333;\<newline>'' @
     ''        }\<newline>'' @
     ''        \<newline>'' @
     ''        .back-content .logo-placeholder {\<newline>'' @
     ''            font-size: 48pt;\<newline>'' @
     ''            color: #c4a052;\<newline>'' @
     ''            margin-bottom: 0.2in;\<newline>'' @
     ''        }\<newline>'' @
     ''        \<newline>'' @
     ''        .back-content h2 {\<newline>'' @
     ''            font-size: 14pt;\<newline>'' @
     ''            font-weight: normal;\<newline>'' @
     ''            letter-spacing: 2pt;\<newline>'' @
     ''            text-transform: uppercase;\<newline>'' @
     ''            margin-bottom: 0.1in;\<newline>'' @
     ''        }\<newline>'' @
     ''        \<newline>'' @
     ''        .back-content .tagline {\<newline>'' @
     ''            font-size: 10pt;\<newline>'' @
     ''            font-style: italic;\<newline>'' @
     ''            color: #666;\<newline>'' @
     ''            margin-bottom: 0.3in;\<newline>'' @
     ''        }\<newline>'' @
     ''        \<newline>'' @
     ''        .back-content .details {\<newline>'' @
     ''            font-size: 8pt;\<newline>'' @
     ''            color: #888;\<newline>'' @
     ''            line-height: 1.6;\<newline>'' @
     ''            margin-bottom: 0.3in;\<newline>'' @
     ''        }\<newline>'' @
     ''        \<newline>'' @
     ''        .back-content .barcode-placeholder {\<newline>'' @
     ''            display: flex;\<newline>'' @
     ''            flex-direction: column;\<newline>'' @
     ''            align-items: center;\<newline>'' @
     ''        }\<newline>'' @
     ''        \<newline>'' @
     ''        .back-content .barcode-lines {\<newline>'' @
     ''            width: 1.2in;\<newline>'' @
     ''            height: 0.4in;\<newline>'' @
     ''            background: repeating-linear-gradient(\<newline>'' @
     ''                90deg,\<newline>'' @
     ''                #000 0px,\<newline>'' @
     ''                #000 2px,\<newline>'' @
     ''                #fff 2px,\<newline>'' @
     ''                #fff 4px,\<newline>'' @
     ''                #000 4px,\<newline>'' @
     ''                #000 5px,\<newline>'' @
     ''                #fff 5px,\<newline>'' @
     ''                #fff 8px\<newline>'' @
     ''            );\<newline>'' @
     ''            margin-bottom: 0.05in;\<newline>'' @
     ''        }\<newline>'' @
     ''        \<newline>'' @
     ''        .back-content .barcode-placeholder span {\<newline>'' @
     ''            font-family: 'Courier New', monospace;\<newline>'' @
     ''            font-size: 8pt;\<newline>'' @
     ''        }\<newline>'' @
     ''        \<newline>'' @
     ''        /* Inside panel styles */\<newline>'' @
     ''        .inside-content {\<newline>'' @
     ''            width: 100%;\<newline>'' @
     ''            height: 100%;\<newline>'' @
     ''            display: flex;\<newline>'' @
     ''            flex-direction: column;\<newline>'' @
     ''            align-items: center;\<newline>'' @
     ''            justify-content: center;\<newline>'' @
     ''            text-align: center;\<newline>'' @
     ''            padding: 0.5in;\<newline>'' @
     ''            font-family: 'Georgia', serif;\<newline>'' @
     ''            color: #333;\<newline>'' @
     ''        }\<newline>'' @
     ''        \<newline>'' @
     ''        .inside-content .message-area {\<newline>'' @
     ''            max-width: 80%;\<newline>'' @
     ''        }\<newline>'' @
     ''        \<newline>'' @
     ''        .inside-content .preprinted-message {\<newline>'' @
     ''            font-size: 14pt;\<newline>'' @
     ''            font-style: italic;\<newline>'' @
     ''            line-height: 1.8;\<newline>'' @
     ''            margin-bottom: 0.5in;\<newline>'' @
     ''        }\<newline>'' @
     ''        \<newline>'' @
     ''        .inside-content .signature-line {\<newline>'' @
     ''            text-align: left;\<newline>'' @
     ''        }\<newline>'' @
     ''        \<newline>'' @
     ''        .inside-content .signature-line span {\<newline>'' @
     ''            font-size: 12pt;\<newline>'' @
     ''            display: block;\<newline>'' @
     ''            margin-bottom: 0.1in;\<newline>'' @
     ''        }\<newline>'' @
     ''        \<newline>'' @
     ''        .inside-content .signature-line .line {\<newline>'' @
     ''            width: 2in;\<newline>'' @
     ''            border-bottom: 1px solid #ccc;\<newline>'' @
     ''            height: 0.3in;\<newline>'' @
     ''        }\<newline>'' @
     ''        \<newline>'' @
     ''        .small-text {\<newline>'' @
     ''            position: absolute;\<newline>'' @
     ''            bottom: 0.15in;\<newline>'' @
     ''            font-size: 6pt;\<newline>'' @
     ''            color: #ccc;\<newline>'' @
     ''        }\<newline>'' @
     ''    ''\<close>

section \<open>The document templates\<close>

text \<open>
  Each generator returns one f-string. It is written here in its order, cut at the
  boundaries of its CSS rules and body elements: a fragment starts with the blank lines
  that precede it in the template, and a field \<^verbatim>\<open>{x}\<close> is the formatted variable.
  The flat card (lines 342 to 421):
\<close>

definition flat_doc_open :: "string" where
  \<open>flat_doc_open =
     ''<!DOCTYPE html>\<newline>'' @
     ''<html>\<newline>'' @
     ''<head>\<newline>'' @
     ''    <meta charset="UTF-8">\<newline>'' @
     ''    <style>\<newline>'' @
     ''        ''\<close>

definition flat_page_rule :: "pynum \<Rightarrow> pynum \<Rightarrow> pynum \<Rightarrow> string \<Rightarrow> string" where
  \<open>flat_page_rule card_width card_height bleed marks =
     ''\<newline>'' @
     ''        \<newline>'' @
     ''        @page {\<newline>'' @
     ''            size: '' @ py_str_num card_width @ ''in '' @ py_str_num card_height @ ''in;\<newline>'' @
     ''            margin: 0;\<newline>'' @
     ''            bleed: '' @ py_str_num bleed @ ''in;\<newline>'' @
     ''            marks: '' @ marks @ '';\<newline>'' @
     ''        }''\<close>

definition flat_base_rules :: "string" where
  \<open>flat_base_rules =
     ''\<newline>'' @
     ''        \<newline>'' @
     ''        '' @ get_common_styles @ ''\<newline>'' @
     ''        \<newline>'' @
     ''        html, body {\<newline>'' @
     ''            margin: 0;\<newline>'' @
     ''            padding: 0;\<newline>'' @
     ''        }''\<close>

definition flat_page_class_rule :: "pynum \<Rightarrow> pynum \<Rightarrow> string" where
  \<open>flat_page_class_rule card_width card_height =
     ''\<newline>'' @
     ''        \<newline>'' @
     ''        .page {\<newline>'' @
     ''            position: relative;\<newline>'' @
     ''            width: '' @ py_str_num card_width @ ''in;\<newline>'' @
     ''            height: '' @ py_str_num card_height @ ''in;\<newline>'' @
     ''            page-break-after: always;\<newline>'' @
     ''            overflow: visible;\<newline>'' @
     ''        }''\<close>

definition flat_last_child_rule :: "string" where
  \<open>flat_last_child_rule =
     ''\<newline>'' @
     ''        \<newline>'' @
     ''        .page:last-child {\<newline>'' @
     ''            page-break-after: avoid;\<newline>'' @
     ''        }''\<close>

definition flat_page_content_rule :: "pynum \<Rightarrow> pynum \<Rightarrow> pynum \<Rightarrow> pyval \<Rightarrow> string" where
  \<open>flat_page_content_rule bleed total_width total_height bg_color =
     ''\<newline>'' @
     ''        \<newline>'' @
     ''        /* Content box extends into bleed area using negative positioning */\<newline>'' @
     ''        .page-content {\<newline>'' @
     ''            position: absolute;\<newline>'' @
     ''            top: -'' @ py_str_num bleed @ ''in;\<newline>'' @
     ''            left: -'' @ py_str_num bleed @ ''in;\<newline>'' @
     ''            width: '' @ py_str_num total_width @ ''in;\<newline>'' @
     ''            height: '' @ py_str_num total_height @ ''in;\<newline>'' @
     ''            background-color: '' @ py_format bg_color @ '';\<newline>'' @
     ''        }''\<close>

definition flat_image_rule :: "pyval \<Rightarrow> string" where
  \<open>flat_image_rule fit_mode =
     ''\<newline>'' @
     ''        \<newline>'' @
     ''        .image {\<newline>'' @
     ''            width: 100%;\<newline>'' @
     ''            height: 100%;\<newline>'' @
     ''            object-fit: '' @ py_format fit_mode @ '';\<newline>'' @
     ''            object-position: center;\<newline>'' @
     ''            display: block;\<newline>'' @
     ''        }''\<close>

definition flat_back_page_content_rule :: "pynum \<Rightarrow> pynum \<Rightarrow> pynum \<Rightarrow> pyval \<Rightarrow> string" where
  \<open>flat_back_page_content_rule bleed total_width total_height bg_color =
     ''\<newline>'' @
     ''        \<newline>'' @
     ''        .back-page-content {\<newline>'' @
     ''            position: absolute;\<newline>'' @
     ''            top: -'' @ py_str_num bleed @ ''in;\<newline>'' @
     ''            left: -'' @ py_str_num bleed @ ''in;\<newline>'' @
     ''            width: '' @ py_str_num total_width @ ''in;\<newline>'' @
     ''            height: '' @ py_str_num total_height @ ''in;\<newline>'' @
     ''            background-color: '' @ py_format bg_color @ '';\<newline>'' @
     ''            display: flex;\<newline>'' @
     ''            align-items: center;\<newline>'' @
     ''            justify-content: center;\<newline>'' @
     ''        }''\<close>

definition flat_style_close :: "string" where
  \<open>flat_style_close =
     ''\<newline>'' @
     ''    </style>\<newline>'' @
     ''</head>\<newline>''\<close>

definition flat_body :: "pyval \<Rightarrow> pyval \<Rightarrow> string \<Rightarrow> string" where
  \<open>flat_body image_type image_data back_content =
     ''<body>\<newline>'' @
     ''    <!-- Page 1: Front (uploaded image) -->\<newline>'' @
     ''    <div class="page">\<newline>'' @
     ''        <div class="page-content">\<newline>'' @
     ''            <img class="image" src="data:image/'' @ py_format image_type @ '';base64,'' @ py_format image_data @ ''" alt="Card Front">\<newline>'' @
     ''        </div>\<newline>'' @
     ''    </div>\<newline>'' @
     ''    \<newline>'' @
     ''    <!-- Page 2: Back -->\<newline>'' @
     ''    <div class="page">\<newline>'' @
     ''        <div class="back-page-content">\<newline>'' @
     ''            '' @ back_content @ ''\<newline>'' @
     ''        </div>\<newline>'' @
     ''    </div>\<newline>'' @
     ''</body>\<newline>'' @
     ''</html>''\<close>

definition flat_card_template :: "string \<Rightarrow> pynum \<Rightarrow> pynum \<Rightarrow> pynum \<Rightarrow> string \<Rightarrow> pynum \<Rightarrow> pynum \<Rightarrow> pyval \<Rightarrow> pyval \<Rightarrow> pyval \<Rightarrow> pyval \<Rightarrow> string \<Rightarrow> string" where
  \<open>flat_card_template prince_pdf_block card_width card_height bleed marks total_width total_height bg_color fit_mode image_type image_data back_content =
     flat_doc_open @
     prince_pdf_block @
     flat_page_rule card_width card_height bleed marks @
     flat_base_rules @
     flat_page_class_rule card_width card_height @
     flat_last_child_rule @
     flat_page_content_rule bleed total_width total_height bg_color @
     flat_image_rule fit_mode @
     flat_back_page_content_rule bleed total_width total_height bg_color @
     flat_style_close @
     flat_body image_type image_data back_content\<close>

text \<open>The folded card (lines 468 to 591):\<close>

definition folded_doc_open :: "string" where
  \<open>folded_doc_open =
     ''<!DOCTYPE html>\<newline>'' @
     ''<html>\<newline>'' @
     ''<head>\<newline>'' @
     ''    <meta charset="UTF-8">\<newline>'' @
     ''    <style>\<newline>'' @
     ''        ''\<close>

definition folded_page_rule :: "pynum \<Rightarrow> pynum \<Rightarrow> pynum \<Rightarrow> string \<Rightarrow> string" where
  \<open>folded_page_rule spread_width spread_height bleed marks =
     ''\<newline>'' @
     ''        \<newline>'' @
     ''        @page {\<newline>'' @
     ''            size: '' @ py_str_num spread_width @ ''in '' @ py_str_num spread_height @ ''in;\<newline>'' @
     ''            margin: 0;\<newline>'' @
     ''            bleed: '' @ py_str_num bleed @ ''in;\<newline>'' @
     ''            marks: '' @ marks @ '';\<newline>'' @
     ''        }''\<close>

definition folded_base_rules :: "string" where
  \<open>folded_base_rules =
     ''\<newline>'' @
     ''        \<newline>'' @
     ''        '' @ get_common_styles @ ''\<newline>'' @
     ''        \<newline>'' @
     ''        html, body {\<newline>'' @
     ''            margin: 0;\<newline>'' @
     ''            padding: 0;\<newline>'' @
     ''        }''\<close>

definition folded_spread_class_rule :: "pynum \<Rightarrow> pynum \<Rightarrow> string" where
  \<open>folded_spread_class_rule spread_width spread_height =
     ''\<newline>'' @
     ''        \<newline>'' @
     ''        .spread {\<newline>'' @
     ''            position: relative;\<newline>'' @
     ''            width: '' @ py_str_num spread_width @ ''in;\<newline>'' @
     ''            height: '' @ py_str_num spread_height @ ''in;\<newline>'' @
     ''            page-break-after: always;\<newline>'' @
     ''            overflow: visible;\<newline>'' @
     ''        }''\<close>

definition folded_last_child_rule :: "string" where
  \<open>folded_last_child_rule =
     ''\<newline>'' @
     ''        \<newline>'' @
     ''        .spread:last-child {\<newline>'' @
     ''            page-break-after: avoid;\<newline>'' @
     ''        }''\<close>

definition folded_spread_content_rule :: "pynum \<Rightarrow> pynum \<Rightarrow> pynum \<Rightarrow> pyval \<Rightarrow> string" where
  \<open>folded_spread_content_rule bleed total_spread_width total_spread_height bg_color =
     ''\<newline>'' @
     ''        \<newline>'' @
     ''        /* Content extends into bleed area */\<newline>'' @
     ''        .spread-content {\<newline>'' @
     ''            position: absolute;\<newline>'' @
     ''            top: -'' @ py_str_num bleed @ ''in;\<newline>'' @
     ''            left: -'' @ py_str_num bleed @ ''in;\<newline>'' @
     ''            width: '' @ py_str_num total_spread_width @ ''in;\<newline>'' @
     ''            height: '' @ py_str_num total_spread_height @ ''in;\<newline>'' @
     ''            display: flex;\<newline>'' @
     ''            flex-direction: row;\<newline>'' @
     ''            background-color: '' @ py_format bg_color @ '';\<newline>'' @
     ''        }''\<close>

definition folded_panel_rules :: "pyval \<Rightarrow> string" where
  \<open>folded_panel_rules bg_color =
     ''\<newline>'' @
     ''        \<newline>'' @
     ''        /* Each panel takes half the spread (plus outer bleed) */\<newline>'' @
     ''        .panel {\<newline>'' @
     ''            width: 50%;\<newline>'' @
     ''            height: 100%;\<newline>'' @
     ''            position: relative;\<newline>'' @
     ''            overflow: hidden;\<newline>'' @
     ''        }\<newline>'' @
     ''        \<newline>'' @
     ''        .panel-inner {\<newline>'' @
     ''            width: 100%;\<newline>'' @
     ''            height: 100%;\<newline>'' @
     ''            display: flex;\<newline>'' @
     ''            align-items: center;\<newline>'' @
     ''            justify-content: center;\<newline>'' @
     ''            position: relative;\<newline>'' @
     ''            background-color: '' @ py_format bg_color @ '';\<newline>'' @
     ''        }''\<close>

definition folded_image_rule :: "pyval \<Rightarrow> string" where
  \<open>folded_image_rule fit_mode =
     ''\<newline>'' @
     ''        \<newline>'' @
     ''        .image {\<newline>'' @
     ''            width: 100%;\<newline>'' @
     ''            height: 100%;\<newline>'' @
     ''            object-fit: '' @ py_format fit_mode @ '';\<newline>'' @
     ''            object-position: center;\<newline>'' @
     ''            display: block;\<newline>'' @
     ''        }''\<close>

definition folded_fold_indicator_rule :: "string" where
  \<open>folded_fold_indicator_rule =
     ''\<newline>'' @
     ''        \<newline>'' @
     ''        /* Fold line indicator (visual guide on trim, very subtle) */\<newline>'' @
     ''        .fold-indicator {\<newline>'' @
     ''            position: absolute;\<newline>'' @
     ''            top: 0;\<newline>'' @
     ''            left: 50%;\<newline>'' @
     ''            width: 0;\<newline>'' @
     ''            height: 100%;\<newline>'' @
     ''            border-left: 0.5px dashed rgba(200, 200, 200, 0.5);\<newline>'' @
     ''            z-index: 10;\<newline>'' @
     ''        }''\<close>

definition folded_style_close :: "string" where
  \<open>folded_style_close =
     ''\<newline>'' @
     ''    </style>\<newline>'' @
     ''</head>\<newline>''\<close>

definition folded_body_open :: "string" where
  \<open>folded_body_open =
     ''<body>\<newline>''\<close>

definition folded_spread1 :: "string \<Rightarrow> pyval \<Rightarrow> pyval \<Rightarrow> string" where
  \<open>folded_spread1 back_panel_content image_type image_data =
     ''    <!-- Spread 1: Outside (Panel 4 left | Panel 1 right) -->\<newline>'' @
     ''    <!-- When printed and folded, Panel 1 becomes front cover, Panel 4 becomes back -->\<newline>'' @
     ''    <div class="spread">\<newline>'' @
     ''        <div class="spread-content">\<newline>'' @
     ''            <!-- Panel 4: Back Cover (left side of spread) -->\<newline>'' @
     ''            <div class="panel">\<newline>'' @
     ''                <div class="panel-inner">\<newline>'' @
     ''                    '' @ back_panel_content @ ''\<newline>'' @
     ''                </div>\<newline>'' @
     ''            </div>\<newline>'' @
     ''            <!-- Panel 1: Front Cover (right side of spread) - uploaded image -->\<newline>'' @
     ''            <div class="panel">\<newline>'' @
     ''                <div class="panel-inner">\<newline>'' @
     ''                    <img class="image" src="data:image/'' @ py_format image_type @ '';base64,'' @ py_format image_data @ ''" alt="Front Cover">\<newline>'' @
     ''                </div>\<newline>'' @
     ''            </div>\<newline>'' @
     ''        </div>\<newline>'' @
     ''        <div class="fold-indicator"></div>\<newline>'' @
     ''    </div>''\<close>

definition folded_spread_gap :: "string" where
  \<open>folded_spread_gap =
     ''\<newline>'' @
     ''    \<newline>''\<close>

definition folded_spread2 :: "string \<Rightarrow> string \<Rightarrow> string \<Rightarrow> string" where
  \<open>folded_spread2 inside_left_content inside_right_content inside_fold_indicator =
     ''    <!-- Spread 2: Inside (Panel 2 left | Panel 3 right) -->\<newline>'' @
     ''    <div class="spread">\<newline>'' @
     ''        <div class="spread-content">\<newline>'' @
     ''            <!-- Panel 2: Inside Left -->\<newline>'' @
     ''            <div class="panel">\<newline>'' @
     ''                <div class="panel-inner">\<newline>'' @
     ''                    '' @ inside_left_content @ ''\<newline>'' @
     ''                </div>\<newline>'' @
     ''            </div>\<newline>'' @
     ''            <!-- Panel 3: Inside Right -->\<newline>'' @
     ''            <div class="panel">\<newline>'' @
     ''                <div class="panel-inner">\<newline>'' @
     ''                    '' @ inside_right_content @ ''\<newline>'' @
     ''                </div>\<newline>'' @
     ''            </div>\<newline>'' @
     ''        </div>\<newline>'' @
     ''        '' @ inside_fold_indicator @ ''\<newline>'' @
     ''    </div>''\<close>

definition folded_body_close :: "string" where
  \<open>folded_body_close =
     ''\<newline>'' @
     ''</body>\<newline>'' @
     ''</html>''\<close>

definition folded_card_template :: "string \<Rightarrow> pynum \<Rightarrow> pynum \<Rightarrow> pynum \<Rightarrow> string \<Rightarrow> pynum \<Rightarrow> pynum \<Rightarrow> pyval \<Rightarrow> pyval \<Rightarrow> pyval \<Rightarrow> pyval \<Rightarrow> string \<Rightarrow> string \<Rightarrow> string \<Rightarrow> string \<Rightarrow> string" where
  \<open>folded_card_template prince_pdf_block spread_width spread_height bleed marks total_spread_width total_spread_height bg_color fit_mode image_type image_data back_panel_content inside_left_content inside_right_content inside_fold_indicator =
     folded_doc_open @
     prince_pdf_block @
     folded_page_rule spread_width spread_height bleed marks @
     folded_base_rules @
     folded_spread_class_rule spread_width spread_height @
     folded_last_child_rule @
     folded_spread_content_rule bleed total_spread_width total_spread_height bg_color @
     folded_panel_rules bg_color @
     folded_image_rule fit_mode @
     folded_fold_indicator_rule @
     folded_style_close @
     folded_body_open @
     folded_spread1 back_panel_content image_type image_data @
     folded_spread_gap @
     folded_spread2 inside_left_content inside_right_content inside_fold_indicator @
     folded_body_close\<close>

section \<open>The colour directive: \<^verbatim>\<open>get_prince_pdf_css\<close>\<close>

text \<open>The line for the PDF profile, when the profile is truthy (lines 142 to 144).\<close>

definition profile_lines :: "settings \<Rightarrow> string list" where
  \<open>profile_lines settings =
     (let pdf_profile = dict_get settings ''pdf_profile'' (PStr ''PDF/X-4'') in
      if py_truthy pdf_profile
      then [''prince-pdf-profile: "'' @ py_format pdf_profile @ ''";'']
      else [])\<close>

text \<open>The list \<^verbatim>\<open>color_options\<close> (lines 147 to 151).\<close>

definition color_options :: "settings \<Rightarrow> string list" where
  \<open>color_options settings =
     (if py_truthy (dict_get settings ''use_true_black'' (PBool True))
      then [''use-true-black''] else []) @
     (if py_truthy (dict_get settings ''use_cmyk_colors'' (PBool False))
      then [''use-cmyk-colors''] else [])\<close>

definition color_lines :: "settings \<Rightarrow> string list" where
  \<open>color_lines settings =
     (if color_options settings \<noteq> []
      then [''prince-pdf-color-options: '' @ py_join '' '' (color_options settings) @ '';'']
      else [])\<close>

text \<open>The output intent, when \<^verbatim>\<open>icc_base64\<close> is truthy (lines 157 to 160).\<close>

definition output_intent_lines :: "settings \<Rightarrow> string list" where
  \<open>output_intent_lines settings =
     (let icc_base64 = dict_get settings ''icc_base64'' PNone in
      if py_truthy icc_base64
      then [''prince-pdf-output-intent: url("data:application/vnd.iccprofile;base64,'' @
            py_format icc_base64 @ ''");'']
      else [])\<close>

text \<open>The list \<^verbatim>\<open>prince_pdf_css\<close> when the function reaches line 162.\<close>

definition prince_pdf_css :: "settings \<Rightarrow> string list" where
  "prince_pdf_css settings =
     profile_lines settings @ color_lines settings @ output_intent_lines settings"

definition get_prince_pdf_css :: "settings \<Rightarrow> string" where
  \<open>get_prince_pdf_css settings =
     (if prince_pdf_css settings \<noteq> []
      then ''\<newline>'' @
           ''        @prince-pdf {\<newline>'' @
           ''            '' @
             py_join ''\<newline>'' (map (\<lambda>css. ''            '' @ css) (prince_pdf_css settings)) @
             ''\<newline>'' @
           ''        }\<newline>'' @
           ''        ''
      else '''')\<close>

section \<open>The flat card: \<^verbatim>\<open>generate_flat_card_html\<close>\<close>

text \<open>The local variables of the function, each as the source computes it.\<close>

definition flat_card_width :: pynum where
  "flat_card_width = PyFloat 4.75"

definition flat_card_height :: pynum where
  "flat_card_height = PyFloat 6.75"

definition flat_bleed :: "settings \<Rightarrow> pynum" where
  "flat_bleed settings =
     (if py_truthy (dict_get settings ''add_bleed'' (PBool False)) then PyFloat 0.125 else PyInt 0)"

definition flat_total_width :: "settings \<Rightarrow> pynum" where
  "flat_total_width settings = num_add flat_card_width (num_mul (flat_bleed settings) (PyInt 2))"

definition flat_total_height :: "settings \<Rightarrow> pynum" where
  "flat_total_height settings = num_add flat_card_height (num_mul (flat_bleed settings) (PyInt 2))"

definition flat_marks :: "settings \<Rightarrow> string" where
  "flat_marks settings = (if num_gt (flat_bleed settings) (PyInt 0) then ''crop'' else ''none'')"

definition flat_back_content :: "pyval \<Rightarrow> pyval \<Rightarrow> string" where
  \<open>flat_back_content back_image_data back_image_type =
     (if py_truthy back_image_data \<and> py_truthy back_image_type
      then ''<img class="image" src="data:image/'' @ py_format back_image_type @ '';base64,'' @
           py_format back_image_data @ ''" alt="Card Back">''
      else BACK_PANEL_CONTENT)\<close>

definition generate_flat_card_html :: "pyval \<Rightarrow> pyval \<Rightarrow> settings \<Rightarrow> pyval \<Rightarrow> pyval \<Rightarrow> string" where
  "generate_flat_card_html image_data image_type settings back_image_data back_image_type =
     flat_card_template
       (get_prince_pdf_css settings)
       flat_card_width flat_card_height
       (flat_bleed settings) (flat_marks settings)
       (flat_total_width settings) (flat_total_height settings)
       (dict_get settings ''background_color'' (PStr ''#ffffff''))
       (dict_get settings ''image_fit'' (PStr ''cover''))
       image_type image_data
       (flat_back_content back_image_data back_image_type)"

section \<open>The folded card: \<^verbatim>\<open>generate_folded_card_html\<close>\<close>

definition folded_panel_width :: pynum where
  "folded_panel_width = PyFloat 4.75"

definition folded_panel_height :: pynum where
  "folded_panel_height = PyFloat 6.75"

definition folded_bleed :: "settings \<Rightarrow> pynum" where
  "folded_bleed settings =
     (if py_truthy (dict_get settings ''add_bleed'' (PBool False)) then PyFloat 0.125 else PyInt 0)"

definition folded_spread_width :: pynum where
  "folded_spread_width = num_mul folded_panel_width (PyInt 2)"

definition folded_spread_height :: pynum where
  "folded_spread_height = folded_panel_height"

definition folded_total_spread_width :: "settings \<Rightarrow> pynum" where
  "folded_total_spread_width settings =
     num_add folded_spread_width (num_mul (folded_bleed settings) (PyInt 2))"

definition folded_total_spread_height :: "settings \<Rightarrow> pynum" where
  "folded_total_spread_height settings =
     num_add folded_spread_height (num_mul (folded_bleed settings) (PyInt 2))"

definition folded_marks :: "settings \<Rightarrow> string" where
  "folded_marks settings = (if num_gt (folded_bleed settings) (PyInt 0) then ''crop'' else ''none'')"

definition folded_back_panel_content :: "pyval \<Rightarrow> pyval \<Rightarrow> string" where
  \<open>folded_back_panel_content back_image_data back_image_type =
     (if py_truthy back_image_data \<and> py_truthy back_image_type
      then ''<img class="image" src="data:image/'' @ py_format back_image_type @ '';base64,'' @
           py_format back_image_data @ ''" alt="Back Cover">''
      else PANEL_4_CONTENT)\<close>

text \<open>
  Lines 456 to 466 set three variables in one conditional: the two inside panels and the
  fold indicator of the inside spread.
\<close>

definition folded_inside_left_content :: "pyval \<Rightarrow> pyval \<Rightarrow> string" where
  \<open>folded_inside_left_content inside_image_data inside_image_type =
     (if py_truthy inside_image_data \<and> py_truthy inside_image_type
      then ''<img class="image" src="data:image/'' @ py_format inside_image_type @ '';base64,'' @
           py_format inside_image_data @ ''" alt="Inside Left" style="object-position: right center;">''
      else INSIDE_LEFT_CONTENT)\<close>

definition folded_inside_right_content :: "pyval \<Rightarrow> pyval \<Rightarrow> string" where
  \<open>folded_inside_right_content inside_image_data inside_image_type =
     (if py_truthy inside_image_data \<and> py_truthy inside_image_type
      then ''<img class="image" src="data:image/'' @ py_format inside_image_type @ '';base64,'' @
           py_format inside_image_data @ ''" alt="Inside Right" style="object-position: left center;">''
      else INSIDE_RIGHT_CONTENT)\<close>

definition folded_inside_fold_indicator :: "pyval \<Rightarrow> pyval \<Rightarrow> string" where
  \<open>folded_inside_fold_indicator inside_image_data inside_image_type =
     (if py_truthy inside_image_data \<and> py_truthy inside_image_type
      then ''''
      else ''<div class="fold-indicator"></div>'')\<close>

definition generate_folded_card_html ::
  "pyval \<Rightarrow> pyval \<Rightarrow> settings \<Rightarrow> pyval \<Rightarrow> pyval \<Rightarrow> pyval \<Rightarrow> pyval \<Rightarrow> string" where
  "generate_folded_card_html image_data image_type settings inside_image_data inside_image_type
       back_image_data back_image_type =
     folded_card_template
       (get_prince_pdf_css settings)
       folded_spread_width folded_spread_height
       (folded_bleed settings) (folded_marks settings)
       (folded_total_spread_width settings) (folded_total_spread_height settings)
       (dict_get settings ''background_color'' (PStr ''#ffffff''))
       (dict_get settings ''image_fit'' (PStr ''cover''))
       image_type image_data
       (folded_back_panel_content back_image_data back_image_type)
       (folded_inside_left_content inside_image_data inside_image_type)
       (folded_inside_right_content inside_image_data inside_image_type)
       (folded_inside_fold_indicator inside_image_data inside_image_type)"

section \<open>The assembler: \<^verbatim>\<open>generate_html_for_image\<close>\<close>

text \<open>
  \<^verbatim>\<open>additional_images\<close> is \<^verbatim>\<open>None\<close> or a dictionary from \<^verbatim>\<open>'back'\<close> and \<^verbatim>\<open>'inside'\<close> to
  dictionaries with the keys \<^verbatim>\<open>'data'\<close> and \<^verbatim>\<open>'type'\<close>.
\<close>

type_synonym images = "string \<rightharpoonup> (string \<rightharpoonup> pyval)"

text \<open>\<^verbatim>\<open>additional_images or {}\<close>: an empty dictionary is falsy and is replaced by an empty one.\<close>

definition or_empty :: "images option \<Rightarrow> images" where
  "or_empty additional_images = (case additional_images of None \<Rightarrow> Map.empty | Some m \<Rightarrow> m)"

text \<open>\<^verbatim>\<open>additional_images.get(slot, {}).get(field)\<close>\<close>

definition image_field :: "images \<Rightarrow> string \<Rightarrow> string \<Rightarrow> pyval" where
  "image_field additional_images slot field =
     dict_get (dict_get additional_images slot Map.empty) field PNone"

definition generate_html_for_image :: "pyval \<Rightarrow> pyval \<Rightarrow> settings \<Rightarrow> images option \<Rightarrow> string" where
  "generate_html_for_image image_data image_type settings additional_images =
     (let imgs = or_empty additional_images;
          card_type = dict_get settings ''card_type'' (PStr ''flat'');
          back_data = image_field imgs ''back'' ''data'';
          back_type = image_field imgs ''back'' ''type'';
          inside_data = image_field imgs ''inside'' ''data'';
          inside_type = image_field imgs ''inside'' ''type''
      in if card_type = PStr ''folded''
         then generate_folded_card_html image_data image_type settings
                inside_data inside_type back_data back_type
         else generate_flat_card_html image_data image_type settings back_data back_type)"

section \<open>The request handler: \<^verbatim>\<open>preview_html\<close>\<close>

text \<open>
  The handler that returns the generated document. A request carries form fields
  (strings) and uploaded files (a file name and the bytes). \<^verbatim>\<open>generate_pdf\<close> makes the
  same checks and builds the same images and settings before it calls the rendering
  backend.
\<close>

record upload =
  filename :: string
  content :: "8 word list"

record request =
  form :: "string \<rightharpoonup> string"
  files :: "string \<rightharpoonup> upload"

text \<open>
  The ways a request fails: the three 400 responses of the handler, and the
  \<^verbatim>\<open>IndexError\<close> of \<^verbatim>\<open>rsplit('.', 1)[1]\<close> on a name without a dot.
\<close>

datatype failure = NoImageProvided | NoImageSelected | InvalidFileType | IndexError

definition ALLOWED_EXTENSIONS :: "string set" where
  "ALLOWED_EXTENSIONS = {''png'', ''jpg'', ''jpeg'', ''gif'', ''webp'', ''tiff'', ''tif''}"

text \<open>
  \<^verbatim>\<open>str.lower()\<close>, on the ASCII letters. No other character lowers to a string of the
  letters of \<^verbatim>\<open>ALLOWED_EXTENSIONS\<close>, so membership in that set is the same.
\<close>

definition ascii_lower :: "char \<Rightarrow> char" where
  "ascii_lower c =
     (case map_of (zip ''ABCDEFGHIJKLMNOPQRSTUVWXYZ'' ''abcdefghijklmnopqrstuvwxyz'') c of
        None \<Rightarrow> c
      | Some l \<Rightarrow> l)"

text \<open>\<^verbatim>\<open>name.rsplit('.', 1)[1]\<close>: what follows the last dot; \<open>None\<close> is the \<^verbatim>\<open>IndexError\<close>.\<close>

definition rsplit_ext :: "string \<Rightarrow> string option" where
  "rsplit_ext name =
     (if CHR ''.'' \<in> set name
      then Some (rev (takeWhile (\<lambda>c. c \<noteq> CHR ''.'') (rev name)))
      else None)"

definition allowed_file :: "string \<Rightarrow> bool" where
  "allowed_file name =
     (CHR ''.'' \<in> set name \<and>
      (case rsplit_ext name of
         None \<Rightarrow> False
       | Some ext \<Rightarrow> map ascii_lower ext \<in> ALLOWED_EXTENSIONS))"

text \<open>Lines 858 to 860 (and the same for the back and inside images): the MIME subtype.\<close>

definition image_type_of :: "string \<Rightarrow> failure + string" where
  "image_type_of name =
     (case rsplit_ext name of
        None \<Rightarrow> Inl IndexError
      | Some ext \<Rightarrow>
          (let image_type = map ascii_lower ext
           in Inr (if image_type = ''jpg'' then ''jpeg'' else image_type)))"

text \<open>
  One optional image (lines 869 to 876, 879 to 886): the entry of \<^verbatim>\<open>additional_images\<close>
  when the file is there, has a name and an allowed extension; no entry otherwise.
\<close>

definition optional_image :: "request \<Rightarrow> string \<Rightarrow> failure + (string \<rightharpoonup> pyval) option" where
  "optional_image req field =
     (case files req field of
        None \<Rightarrow> Inr None
      | Some f \<Rightarrow>
          if filename f \<noteq> '''' \<and> allowed_file (filename f)
          then (case image_type_of (filename f) of
                  Inl e \<Rightarrow> Inl e
                | Inr ty \<Rightarrow> Inr (Some [''data'' \<mapsto> PStr (b64encode (content f)), ''type'' \<mapsto> PStr ty]))
          else Inr None)"

text \<open>
  \<^verbatim>\<open>get_icc_profile_base64\<close> reads the profile directory; it is a parameter here, from
  the name of a profile to its base64 string or \<^verbatim>\<open>None\<close>.
\<close>

definition preview_html :: "(string \<Rightarrow> pyval) \<Rightarrow> request \<Rightarrow> failure + string" where
  "preview_html get_icc_profile_base64 req =
     (case files req ''image'' of
        None \<Rightarrow> Inl NoImageProvided
      | Some file \<Rightarrow>
          if filename file = '''' then Inl NoImageSelected
          else if \<not> allowed_file (filename file) then Inl InvalidFileType
          else
            (case image_type_of (filename file) of
               Inl e \<Rightarrow> Inl e
             | Inr image_type \<Rightarrow>
                 (let image_data = b64encode (content file);
                      provide_all = (form req ''provide_all_images'' = Some ''true'');
                      card_type = dict_get (form req) ''card_type'' ''flat''
                  in
                  case (if provide_all then optional_image req ''back_image'' else Inr None) of
                    Inl e \<Rightarrow> Inl e
                  | Inr back \<Rightarrow>
                  (case (if provide_all \<and> card_type = ''folded''
                         then optional_image req ''inside_image'' else Inr None) of
                    Inl e \<Rightarrow> Inl e
                  | Inr inside \<Rightarrow>
                      (let additional_images = (Map.empty :: images)(''back'' := back, ''inside'' := inside);
                           selected_profile = dict_get (form req) ''icc_profile'' '''';
                           icc_base64 =
                             (if selected_profile \<noteq> '''' then get_icc_profile_base64 selected_profile
                              else PNone);
                           settings =
                             [''card_type'' \<mapsto> PStr card_type,
                              ''pdf_profile'' \<mapsto> PStr (dict_get (form req) ''pdf_profile'' ''PDF/X-4''),
                              ''icc_base64'' \<mapsto> icc_base64,
                              ''add_bleed'' \<mapsto> PBool (form req ''add_bleed'' = Some ''true''),
                              ''use_true_black'' \<mapsto> PBool (form req ''use_true_black'' = Some ''true''),
                              ''use_cmyk_colors'' \<mapsto> PBool (form req ''use_cmyk_colors'' = Some ''true''),
                              ''image_fit'' \<mapsto> PStr (dict_get (form req) ''image_fit'' ''cover''),
                              ''background_color'' \<mapsto>
                                PStr (dict_get (form req) ''background_color'' ''#ffffff'')]
                       in Inr (generate_html_for_image (PStr image_data) (PStr image_type) settings
                                 (Some additional_images)))))))"

section \<open>Evaluation lemmas\<close>

lemma float_repr_values:
  "float_repr (19 / 4) = ''4.75''"
  "float_repr (27 / 4) = ''6.75''"
  "float_repr (1 / 8) = ''0.125''"
  "float_repr 5 = ''5.0''"
  "float_repr 7 = ''7.0''"
  "float_repr (19 / 2) = ''9.5''"
  "float_repr (39 / 4) = ''9.75''"
  by code_simp+

lemma show_int_0: "show_int 0 = ''0''"
  by code_simp

lemma flat_trim_str:
  "py_str_num flat_card_width = ''4.75''"
  "py_str_num flat_card_height = ''6.75''"
  by (simp_all add: flat_card_width_def flat_card_height_def float_repr_values)

lemma folded_trim_str:
  "py_str_num folded_spread_width = ''9.5''"
  "py_str_num folded_spread_height = ''6.75''"
  by (simp_all add: folded_spread_width_def folded_spread_height_def folded_panel_width_def
      folded_panel_height_def float_repr_values)

lemma flat_bleed_off:
  "\<not> py_truthy (dict_get s ''add_bleed'' (PBool False)) \<Longrightarrow> flat_bleed s = PyInt 0"
  by (simp add: flat_bleed_def)

lemma flat_bleed_on:
  "py_truthy (dict_get s ''add_bleed'' (PBool False)) \<Longrightarrow> flat_bleed s = PyFloat (1 / 8)"
  by (simp add: flat_bleed_def)

lemma folded_bleed_off:
  "\<not> py_truthy (dict_get s ''add_bleed'' (PBool False)) \<Longrightarrow> folded_bleed s = PyInt 0"
  by (simp add: folded_bleed_def)

lemma folded_bleed_on:
  "py_truthy (dict_get s ''add_bleed'' (PBool False)) \<Longrightarrow> folded_bleed s = PyFloat (1 / 8)"
  by (simp add: folded_bleed_def)

text \<open>Where the \<^verbatim>\<open>@page\<close> rule stands: right after the colour directive.\<close>

lemma flat_html_prefix:
  "prefix (flat_doc_open @ get_prince_pdf_css s @
           flat_page_rule flat_card_width flat_card_height (flat_bleed s) (flat_marks s))
     (generate_flat_card_html d t s bd bt)"
  by (simp add: generate_flat_card_html_def flat_card_template_def)

lemma folded_html_prefix:
  "prefix (folded_doc_open @ get_prince_pdf_css s @
           folded_page_rule folded_spread_width folded_spread_height (folded_bleed s) (folded_marks s))
     (generate_folded_card_html d t s idata itype bd bt)"
  by (simp add: generate_folded_card_html_def folded_card_template_def)

text \<open>Walking down a concatenation to the fragment looked for.\<close>

lemma sublist_skip: "sublist x r \<Longrightarrow> sublist x (a @ r)"
  by (metis sublist_appendI sublist_order.order.trans sublist_append_leftI)

lemma sublist_here2: "sublist (x @ y) (x @ y @ r)"
  using sublist_append_rightI [of "x @ y" r] by simp

text \<open>Where the fragments stand in the two documents.\<close>

lemma flat_html_suffix:
  "suffix (flat_body t d (flat_back_content bd bt)) (generate_flat_card_html d t s bd bt)"
  unfolding generate_flat_card_html_def flat_card_template_def
  by (rule suffix_order.refl | rule suffix_appendI)+

lemma flat_html_break_rules:
  "sublist (flat_page_class_rule flat_card_width flat_card_height @ flat_last_child_rule)
     (generate_flat_card_html d t s bd bt)"
  unfolding generate_flat_card_html_def flat_card_template_def
  by (rule sublist_here2 | rule sublist_skip)+

lemma folded_html_suffix:
  "suffix (folded_body_open @
           folded_spread1 (folded_back_panel_content bd bt) t d @
           folded_spread_gap @
           folded_spread2 (folded_inside_left_content idata itype)
             (folded_inside_right_content idata itype) (folded_inside_fold_indicator idata itype) @
           folded_body_close)
     (generate_folded_card_html d t s idata itype bd bt)"
  unfolding generate_folded_card_html_def folded_card_template_def
  by (rule suffix_order.refl | rule suffix_appendI)+

lemma folded_html_inside:
  "suffix (folded_spread2 (folded_inside_left_content idata itype)
             (folded_inside_right_content idata itype) (folded_inside_fold_indicator idata itype) @
           folded_body_close)
     (generate_folded_card_html d t s idata itype bd bt)"
  unfolding generate_folded_card_html_def folded_card_template_def
  by (rule suffix_order.refl | rule suffix_appendI)+

lemma folded_html_spread1:
  "sublist (folded_spread1 (folded_back_panel_content bd bt) t d)
     (generate_folded_card_html d t s idata itype bd bt)"
  unfolding generate_folded_card_html_def folded_card_template_def
  by (rule sublist_append_rightI | rule sublist_skip)+

lemma folded_html_break_rules:
  "sublist (folded_spread_class_rule folded_spread_width folded_spread_height @ folded_last_child_rule)
     (generate_folded_card_html d t s idata itype bd bt)"
  unfolding generate_folded_card_html_def folded_card_template_def
  by (rule sublist_here2 | rule sublist_skip)+

lemma folded_html_content_rule:
  "sublist (folded_spread_content_rule (folded_bleed s) (folded_total_spread_width s)
              (folded_total_spread_height s) (dict_get s ''background_color'' (PStr ''#ffffff'')))
     (generate_folded_card_html d t s idata itype bd bt)"
  unfolding generate_folded_card_html_def folded_card_template_def
  by (rule sublist_append_rightI | rule sublist_skip)+

text \<open>The three variables lines 456 to 466 set, in the two branches.\<close>

lemma inside_fallback:
  assumes "\<not> (py_truthy idata \<and> py_truthy itype)"
  shows "folded_inside_left_content idata itype = INSIDE_LEFT_CONTENT"
    and "folded_inside_right_content idata itype = INSIDE_RIGHT_CONTENT"
    and \<open>folded_inside_fold_indicator idata itype = ''<div class="fold-indicator"></div>''\<close>
  by (simp_all only: folded_inside_left_content_def folded_inside_right_content_def
      folded_inside_fold_indicator_def assms if_False)

lemma inside_image:
  assumes "py_truthy idata \<and> py_truthy itype"
  shows \<open>folded_inside_left_content idata itype =
           ''<img class="image" src="data:image/'' @ py_format itype @ '';base64,'' @ py_format idata @
           ''" alt="Inside Left" style="object-position: right center;">''\<close>
    and \<open>folded_inside_right_content idata itype =
           ''<img class="image" src="data:image/'' @ py_format itype @ '';base64,'' @ py_format idata @
           ''" alt="Inside Right" style="object-position: left center;">''\<close>
    and "folded_inside_fold_indicator idata itype = []"
  using assms
  by (simp_all add: folded_inside_left_content_def folded_inside_right_content_def
      folded_inside_fold_indicator_def)

lemma folded_totals:
  "\<not> py_truthy (dict_get s ''add_bleed'' (PBool False)) \<Longrightarrow>
     folded_total_spread_width s = PyFloat (19 / 2) \<and> folded_total_spread_height s = PyFloat (27 / 4)"
  "py_truthy (dict_get s ''add_bleed'' (PBool False)) \<Longrightarrow>
     folded_total_spread_width s = PyFloat (39 / 4) \<and> folded_total_spread_height s = PyFloat 7"
  by (simp_all add: folded_total_spread_width_def folded_total_spread_height_def
      folded_spread_width_def folded_spread_height_def folded_panel_width_def folded_panel_height_def
      folded_bleed_def)

section \<open>Bleed and crop marks\<close>

text \<open>
  C1. In both generators, for every settings dictionary: when \<^verbatim>\<open>add_bleed\<close> is false (or
  missing) the bleed is the integer 0, \<^verbatim>\<open>marks\<close> is \<^verbatim>\<open>none\<close>, and the \<^verbatim>\<open>@page\<close> rule
  the document opens with says \<^verbatim>\<open>bleed: 0in; marks: none;\<close>; when \<^verbatim>\<open>add_bleed\<close> is true
  the bleed is 0.125, \<^verbatim>\<open>marks\<close> is \<^verbatim>\<open>crop\<close>, and the rule says
  \<^verbatim>\<open>bleed: 0.125in; marks: crop;\<close>. The marks are \<^verbatim>\<open>crop\<close> exactly when the bleed is
  positive, and \<^verbatim>\<open>none\<close> otherwise.
\<close>

theorem bleed_and_marks:
  \<open>(\<not> py_truthy (dict_get s ''add_bleed'' (PBool False)) \<longrightarrow>
      flat_bleed s = PyInt 0 \<and> flat_marks s = ''none'' \<and>
      folded_bleed s = PyInt 0 \<and> folded_marks s = ''none'' \<and>
      prefix (flat_doc_open @ get_prince_pdf_css s @
          ''\<newline>'' @
          ''        \<newline>'' @
          ''        @page {\<newline>'' @
          ''            size: 4.75in 6.75in;\<newline>'' @
          ''            margin: 0;\<newline>'' @
          ''            bleed: 0in;\<newline>'' @
          ''            marks: none;\<newline>'' @
          ''        }'')
        (generate_flat_card_html d t s bd bt) \<and>
      prefix (folded_doc_open @ get_prince_pdf_css s @
          ''\<newline>'' @
          ''        \<newline>'' @
          ''        @page {\<newline>'' @
          ''            size: 9.5in 6.75in;\<newline>'' @
          ''            margin: 0;\<newline>'' @
          ''            bleed: 0in;\<newline>'' @
          ''            marks: none;\<newline>'' @
          ''        }'')
        (generate_folded_card_html d t s idata itype bd bt)) \<and>
   (py_truthy (dict_get s ''add_bleed'' (PBool False)) \<longrightarrow>
      flat_bleed s = PyFloat 0.125 \<and> flat_marks s = ''crop'' \<and>
      folded_bleed s = PyFloat 0.125 \<and> folded_marks s = ''crop'' \<and>
      prefix (flat_doc_open @ get_prince_pdf_css s @
          ''\<newline>'' @
          ''        \<newline>'' @
          ''        @page {\<newline>'' @
          ''            size: 4.75in 6.75in;\<newline>'' @
          ''            margin: 0;\<newline>'' @
          ''            bleed: 0.125in;\<newline>'' @
          ''            marks: crop;\<newline>'' @
          ''        }'')
        (generate_flat_card_html d t s bd bt) \<and>
      prefix (folded_doc_open @ get_prince_pdf_css s @
          ''\<newline>'' @
          ''        \<newline>'' @
          ''        @page {\<newline>'' @
          ''            size: 9.5in 6.75in;\<newline>'' @
          ''            margin: 0;\<newline>'' @
          ''            bleed: 0.125in;\<newline>'' @
          ''            marks: crop;\<newline>'' @
          ''        }'')
        (generate_folded_card_html d t s idata itype bd bt)) \<and>
   (flat_marks s = (if 0 < num_val (flat_bleed s) then ''crop'' else ''none'')) \<and>
   (folded_marks s = (if 0 < num_val (folded_bleed s) then ''crop'' else ''none''))\<close>
proof (intro conjI impI)
  assume off: "\<not> py_truthy (dict_get s ''add_bleed'' (PBool False))"
  show "flat_bleed s = PyInt 0" "folded_bleed s = PyInt 0"
    using off by (simp_all add: flat_bleed_off folded_bleed_off)
  show "flat_marks s = ''none''" "folded_marks s = ''none''"
    using off by (simp_all add: flat_marks_def folded_marks_def flat_bleed_off folded_bleed_off num_gt_def)
  have \<open>flat_page_rule flat_card_width flat_card_height (flat_bleed s) (flat_marks s) =
          ''\<newline>'' @
          ''        \<newline>'' @
          ''        @page {\<newline>'' @
          ''            size: 4.75in 6.75in;\<newline>'' @
          ''            margin: 0;\<newline>'' @
          ''            bleed: 0in;\<newline>'' @
          ''            marks: none;\<newline>'' @
          ''        }''\<close>
    using off
    by (simp add: flat_page_rule_def flat_trim_str flat_marks_def flat_bleed_off num_gt_def show_int_0)
  with flat_html_prefix [of s d t bd bt]
  show \<open>prefix (flat_doc_open @ get_prince_pdf_css s @
          ''\<newline>'' @
          ''        \<newline>'' @
          ''        @page {\<newline>'' @
          ''            size: 4.75in 6.75in;\<newline>'' @
          ''            margin: 0;\<newline>'' @
          ''            bleed: 0in;\<newline>'' @
          ''            marks: none;\<newline>'' @
          ''        }'')
        (generate_flat_card_html d t s bd bt)\<close>
    by simp
  have \<open>folded_page_rule folded_spread_width folded_spread_height (folded_bleed s) (folded_marks s) =
          ''\<newline>'' @
          ''        \<newline>'' @
          ''        @page {\<newline>'' @
          ''            size: 9.5in 6.75in;\<newline>'' @
          ''            margin: 0;\<newline>'' @
          ''            bleed: 0in;\<newline>'' @
          ''            marks: none;\<newline>'' @
          ''        }''\<close>
    using off
    by (simp add: folded_page_rule_def folded_trim_str folded_marks_def folded_bleed_off num_gt_def
        show_int_0)
  with folded_html_prefix [of s d t idata itype bd bt]
  show \<open>prefix (folded_doc_open @ get_prince_pdf_css s @
          ''\<newline>'' @
          ''        \<newline>'' @
          ''        @page {\<newline>'' @
          ''            size: 9.5in 6.75in;\<newline>'' @
          ''            margin: 0;\<newline>'' @
          ''            bleed: 0in;\<newline>'' @
          ''            marks: none;\<newline>'' @
          ''        }'')
        (generate_folded_card_html d t s idata itype bd bt)\<close>
    by simp
next
  assume on: "py_truthy (dict_get s ''add_bleed'' (PBool False))"
  show "flat_bleed s = PyFloat 0.125" "folded_bleed s = PyFloat 0.125"
    using on by (simp_all add: flat_bleed_on folded_bleed_on)
  show "flat_marks s = ''crop''" "folded_marks s = ''crop''"
    using on by (simp_all add: flat_marks_def folded_marks_def flat_bleed_on folded_bleed_on num_gt_def)
  have \<open>flat_page_rule flat_card_width flat_card_height (flat_bleed s) (flat_marks s) =
          ''\<newline>'' @
          ''        \<newline>'' @
          ''        @page {\<newline>'' @
          ''            size: 4.75in 6.75in;\<newline>'' @
          ''            margin: 0;\<newline>'' @
          ''            bleed: 0.125in;\<newline>'' @
          ''            marks: crop;\<newline>'' @
          ''        }''\<close>
    using on
    by (simp add: flat_page_rule_def flat_trim_str flat_marks_def flat_bleed_on num_gt_def
        float_repr_values)
  with flat_html_prefix [of s d t bd bt]
  show \<open>prefix (flat_doc_open @ get_prince_pdf_css s @
          ''\<newline>'' @
          ''        \<newline>'' @
          ''        @page {\<newline>'' @
          ''            size: 4.75in 6.75in;\<newline>'' @
          ''            margin: 0;\<newline>'' @
          ''            bleed: 0.125in;\<newline>'' @
          ''            marks: crop;\<newline>'' @
          ''        }'')
        (generate_flat_card_html d t s bd bt)\<close>
    by simp
  have \<open>folded_page_rule folded_spread_width folded_spread_height (folded_bleed s) (folded_marks s) =
          ''\<newline>'' @
          ''        \<newline>'' @
          ''        @page {\<newline>'' @
          ''            size: 9.5in 6.75in;\<newline>'' @
          ''            margin: 0;\<newline>'' @
          ''            bleed: 0.125in;\<newline>'' @
          ''            marks: crop;\<newline>'' @
          ''        }''\<close>
    using on
    by (simp add: folded_page_rule_def folded_trim_str folded_marks_def folded_bleed_on num_gt_def
        float_repr_values)
  with folded_html_prefix [of s d t idata itype bd bt]
  show \<open>prefix (folded_doc_open @ get_prince_pdf_css s @
          ''\<newline>'' @
          ''        \<newline>'' @
          ''        @page {\<newline>'' @
          ''            size: 9.5in 6.75in;\<newline>'' @
          ''            margin: 0;\<newline>'' @
          ''            bleed: 0.125in;\<newline>'' @
          ''            marks: crop;\<newline>'' @
          ''        }'')
        (generate_folded_card_html d t s idata itype bd bt)\<close>
    by simp
next
  show "flat_marks s = (if 0 < num_val (flat_bleed s) then ''crop'' else ''none'')"
    by (simp add: flat_marks_def num_gt_def)
  show "folded_marks s = (if 0 < num_val (folded_bleed s) then ''crop'' else ''none'')"
    by (simp add: folded_marks_def num_gt_def)
qed

theorem bleed_and_marks_witness:
  \<open>flat_bleed [''add_bleed'' \<mapsto> PBool True] = PyFloat 0.125 \<and> flat_marks [''add_bleed'' \<mapsto> PBool True] = ''crop'' \<and>
   folded_bleed [''add_bleed'' \<mapsto> PBool True] = PyFloat 0.125 \<and> folded_marks [''add_bleed'' \<mapsto> PBool True] = ''crop'' \<and>
   prefix (flat_doc_open @ get_prince_pdf_css [''add_bleed'' \<mapsto> PBool True] @
          ''\<newline>'' @
          ''        \<newline>'' @
          ''        @page {\<newline>'' @
          ''            size: 4.75in 6.75in;\<newline>'' @
          ''            margin: 0;\<newline>'' @
          ''            bleed: 0.125in;\<newline>'' @
          ''            marks: crop;\<newline>'' @
          ''        }'')
     (generate_flat_card_html (PStr ''QUJD'') (PStr ''png'') [''add_bleed'' \<mapsto> PBool True] PNone PNone) \<and>
   prefix (folded_doc_open @ get_prince_pdf_css [''add_bleed'' \<mapsto> PBool True] @
          ''\<newline>'' @
          ''        \<newline>'' @
          ''        @page {\<newline>'' @
          ''            size: 9.5in 6.75in;\<newline>'' @
          ''            margin: 0;\<newline>'' @
          ''            bleed: 0.125in;\<newline>'' @
          ''            marks: crop;\<newline>'' @
          ''        }'')
     (generate_folded_card_html (PStr ''QUJD'') (PStr ''png'') [''add_bleed'' \<mapsto> PBool True] PNone PNone PNone PNone) \<and>
   flat_bleed Map.empty = PyInt 0 \<and> flat_marks Map.empty = ''none'' \<and>
   folded_bleed Map.empty = PyInt 0 \<and> folded_marks Map.empty = ''none'' \<and>
   prefix (flat_doc_open @ get_prince_pdf_css Map.empty @
          ''\<newline>'' @
          ''        \<newline>'' @
          ''        @page {\<newline>'' @
          ''            size: 4.75in 6.75in;\<newline>'' @
          ''            margin: 0;\<newline>'' @
          ''            bleed: 0in;\<newline>'' @
          ''            marks: none;\<newline>'' @
          ''        }'')
     (generate_flat_card_html (PStr ''QUJD'') (PStr ''png'') Map.empty PNone PNone) \<and>
   prefix (folded_doc_open @ get_prince_pdf_css Map.empty @
          ''\<newline>'' @
          ''        \<newline>'' @
          ''        @page {\<newline>'' @
          ''            size: 9.5in 6.75in;\<newline>'' @
          ''            margin: 0;\<newline>'' @
          ''            bleed: 0in;\<newline>'' @
          ''            marks: none;\<newline>'' @
          ''        }'')
     (generate_folded_card_html (PStr ''QUJD'') (PStr ''png'') Map.empty PNone PNone PNone PNone)\<close>
  using bleed_and_marks [where s = "[''add_bleed'' \<mapsto> PBool True]" and d = "(PStr ''QUJD'')" and t = "(PStr ''png'')" and bd = "PNone" and bt = "PNone" and idata = "PNone" and itype = "PNone"]
    bleed_and_marks [where s = "Map.empty" and d = "(PStr ''QUJD'')" and t = "(PStr ''png'')" and bd = "PNone" and bt = "PNone" and idata = "PNone" and itype = "PNone"]
  by (simp add: dict_get_def)

section \<open>The geometry of a folded card\<close>

text \<open>
  C4. The spread of a folded card is 9.5 by 6.75 inches, and the \<^verbatim>\<open>@page\<close> rule declares
  that size whether bleed is on or off. With bleed on the total size is 9.75 by 7.0 inches
  and the content box is placed at \<^verbatim>\<open>top: -0.125in; left: -0.125in\<close> with that width and
  height; with bleed off the total size is the trim size, 9.5 by 6.75 inches, and the
  offsets are \<^verbatim>\<open>-0in\<close>.
\<close>

theorem folded_geometry:
  \<open>folded_spread_width = PyFloat 9.5 \<and> folded_spread_height = PyFloat 6.75 \<and>
   prefix (folded_doc_open @ get_prince_pdf_css s @
        ''\<newline>'' @
        ''        \<newline>'' @
        ''        @page {\<newline>'' @
        ''            size: 9.5in 6.75in;\<newline>'')
     (generate_folded_card_html d t s idata itype bd bt) \<and>
   (py_truthy (dict_get s ''add_bleed'' (PBool False)) \<longrightarrow>
      folded_total_spread_width s = PyFloat 9.75 \<and> folded_total_spread_height s = PyFloat 7.0 \<and>
      sublist (
        ''\<newline>'' @
        ''        \<newline>'' @
        ''        /* Content extends into bleed area */\<newline>'' @
        ''        .spread-content {\<newline>'' @
        ''            position: absolute;\<newline>'' @
        ''            top: -0.125in;\<newline>'' @
        ''            left: -0.125in;\<newline>'' @
        ''            width: 9.75in;\<newline>'' @
        ''            height: 7.0in;\<newline>'' @
        ''            display: flex;\<newline>'' @
        ''            flex-direction: row;\<newline>'' @
        ''            background-color: '' @ py_format (dict_get s ''background_color'' (PStr ''#ffffff'')) @ '';\<newline>'' @
        ''        }'')
        (generate_folded_card_html d t s idata itype bd bt)) \<and>
   (\<not> py_truthy (dict_get s ''add_bleed'' (PBool False)) \<longrightarrow>
      folded_total_spread_width s = PyFloat 9.5 \<and> folded_total_spread_height s = PyFloat 6.75 \<and>
      sublist (
        ''\<newline>'' @
        ''        \<newline>'' @
        ''        /* Content extends into bleed area */\<newline>'' @
        ''        .spread-content {\<newline>'' @
        ''            position: absolute;\<newline>'' @
        ''            top: -0in;\<newline>'' @
        ''            left: -0in;\<newline>'' @
        ''            width: 9.5in;\<newline>'' @
        ''            height: 6.75in;\<newline>'' @
        ''            display: flex;\<newline>'' @
        ''            flex-direction: row;\<newline>'' @
        ''            background-color: '' @ py_format (dict_get s ''background_color'' (PStr ''#ffffff'')) @ '';\<newline>'' @
        ''        }'')
        (generate_folded_card_html d t s idata itype bd bt))\<close>
proof (intro conjI impI)
  show "folded_spread_width = PyFloat 9.5" "folded_spread_height = PyFloat 6.75"
    by (simp_all add: folded_spread_width_def folded_spread_height_def folded_panel_width_def
        folded_panel_height_def)
  have \<open>prefix (
        ''\<newline>'' @
        ''        \<newline>'' @
        ''        @page {\<newline>'' @
        ''            size: 9.5in 6.75in;\<newline>'')
     (folded_page_rule folded_spread_width folded_spread_height (folded_bleed s) (folded_marks s))\<close>
    by (simp add: folded_page_rule_def folded_trim_str)
  then have \<open>prefix (folded_doc_open @ get_prince_pdf_css s @
        ''\<newline>'' @
        ''        \<newline>'' @
        ''        @page {\<newline>'' @
        ''            size: 9.5in 6.75in;\<newline>'')
     (folded_doc_open @ get_prince_pdf_css s @
      folded_page_rule folded_spread_width folded_spread_height (folded_bleed s) (folded_marks s))\<close>
    by simp
  then show \<open>prefix (folded_doc_open @ get_prince_pdf_css s @
        ''\<newline>'' @
        ''        \<newline>'' @
        ''        @page {\<newline>'' @
        ''            size: 9.5in 6.75in;\<newline>'')
     (generate_folded_card_html d t s idata itype bd bt)\<close>
    using folded_html_prefix [of s d t idata itype bd bt] by (rule prefix_order.trans)
next
  assume on: "py_truthy (dict_get s ''add_bleed'' (PBool False))"
  then show "folded_total_spread_width s = PyFloat 9.75" "folded_total_spread_height s = PyFloat 7.0"
    by (simp_all add: folded_totals)
  show \<open>sublist (
        ''\<newline>'' @
        ''        \<newline>'' @
        ''        /* Content extends into bleed area */\<newline>'' @
        ''        .spread-content {\<newline>'' @
        ''            position: absolute;\<newline>'' @
        ''            top: -0.125in;\<newline>'' @
        ''            left: -0.125in;\<newline>'' @
        ''            width: 9.75in;\<newline>'' @
        ''            height: 7.0in;\<newline>'' @
        ''            display: flex;\<newline>'' @
        ''            flex-direction: row;\<newline>'' @
        ''            background-color: '' @ py_format (dict_get s ''background_color'' (PStr ''#ffffff'')) @ '';\<newline>'' @
        ''        }'')
        (generate_folded_card_html d t s idata itype bd bt)\<close>
    using on folded_html_content_rule [of s d t idata itype bd bt]
    by (simp add: folded_spread_content_rule_def folded_totals folded_bleed_on float_repr_values)
next
  assume off: "\<not> py_truthy (dict_get s ''add_bleed'' (PBool False))"
  then show "folded_total_spread_width s = PyFloat 9.5" "folded_total_spread_height s = PyFloat 6.75"
    by (simp_all add: folded_totals)
  show \<open>sublist (
        ''\<newline>'' @
        ''        \<newline>'' @
        ''        /* Content extends into bleed area */\<newline>'' @
        ''        .spread-content {\<newline>'' @
        ''            position: absolute;\<newline>'' @
        ''            top: -0in;\<newline>'' @
        ''            left: -0in;\<newline>'' @
        ''            width: 9.5in;\<newline>'' @
        ''            height: 6.75in;\<newline>'' @
        ''            display: flex;\<newline>'' @
        ''            flex-direction: row;\<newline>'' @
        ''            background-color: '' @ py_format (dict_get s ''background_color'' (PStr ''#ffffff'')) @ '';\<newline>'' @
        ''        }'')
        (generate_folded_card_html d t s idata itype bd bt)\<close>
    using off folded_html_content_rule [of s d t idata itype bd bt]
    by (simp add: folded_spread_content_rule_def folded_totals folded_bleed_off float_repr_values
        show_int_0)
qed

theorem folded_geometry_witness:
  \<open>folded_total_spread_width [''add_bleed'' \<mapsto> PBool True] = PyFloat 9.75 \<and>
   folded_total_spread_height [''add_bleed'' \<mapsto> PBool True] = PyFloat 7.0 \<and>
   sublist (
      ''\<newline>'' @
      ''        \<newline>'' @
      ''        /* Content extends into bleed area */\<newline>'' @
      ''        .spread-content {\<newline>'' @
      ''            position: absolute;\<newline>'' @
      ''            top: -0.125in;\<newline>'' @
      ''            left: -0.125in;\<newline>'' @
      ''            width: 9.75in;\<newline>'' @
      ''            height: 7.0in;\<newline>'' @
      ''            display: flex;\<newline>'' @
      ''            flex-direction: row;\<newline>'' @
      ''            background-color: '' @ py_format (dict_get [''add_bleed'' \<mapsto> PBool True] ''background_color'' (PStr ''#ffffff'')) @ '';\<newline>'' @
      ''        }'')
     (generate_folded_card_html (PStr ''QUJD'') (PStr ''png'') [''add_bleed'' \<mapsto> PBool True] PNone PNone PNone PNone) \<and>
   folded_total_spread_width Map.empty = PyFloat 9.5 \<and>
   folded_total_spread_height Map.empty = PyFloat 6.75 \<and>
   sublist (
      ''\<newline>'' @
      ''        \<newline>'' @
      ''        /* Content extends into bleed area */\<newline>'' @
      ''        .spread-content {\<newline>'' @
      ''            position: absolute;\<newline>'' @
      ''            top: -0in;\<newline>'' @
      ''            left: -0in;\<newline>'' @
      ''            width: 9.5in;\<newline>'' @
      ''            height: 6.75in;\<newline>'' @
      ''            display: flex;\<newline>'' @
      ''            flex-direction: row;\<newline>'' @
      ''            background-color: '' @ py_format (dict_get Map.empty ''background_color'' (PStr ''#ffffff'')) @ '';\<newline>'' @
      ''        }'')
     (generate_folded_card_html (PStr ''QUJD'') (PStr ''png'') Map.empty PNone PNone PNone PNone)\<close>
  using folded_geometry [where s = "[''add_bleed'' \<mapsto> PBool True]" and d = "(PStr ''QUJD'')" and t = "(PStr ''png'')" and bd = "PNone" and bt = "PNone" and idata = "PNone" and itype = "PNone"]
    folded_geometry [where s = "Map.empty" and d = "(PStr ''QUJD'')" and t = "(PStr ''png'')" and bd = "PNone" and bt = "PNone" and idata = "PNone" and itype = "PNone"]
  by (simp add: dict_get_def)

section \<open>The inside spread of a folded card\<close>

text \<open>
  C3. A folded card with no inside image (the data or the type is missing or empty) ends
  with an inside spread that holds \<^verbatim>\<open>INSIDE_LEFT_CONTENT\<close>, then \<^verbatim>\<open>INSIDE_RIGHT_CONTENT\<close>,
  then the fold indicator element. With an inside image, the inside spread holds the same
  image twice, with \<^verbatim>\<open>object-position: right center\<close> in the left panel and
  \<^verbatim>\<open>object-position: left center\<close> in the right panel, and no fold indicator element:
  the line of the indicator is blank.
\<close>

theorem inside_spread:
  \<open>(\<not> (py_truthy idata \<and> py_truthy itype) \<longrightarrow>
      suffix (
        ''    <!-- Spread 2: Inside (Panel 2 left | Panel 3 right) -->\<newline>'' @
        ''    <div class="spread">\<newline>'' @
        ''        <div class="spread-content">\<newline>'' @
        ''            <!-- Panel 2: Inside Left -->\<newline>'' @
        ''            <div class="panel">\<newline>'' @
        ''                <div class="panel-inner">\<newline>'' @
        ''                    '' @ INSIDE_LEFT_CONTENT @ ''\<newline>'' @
        ''                </div>\<newline>'' @
        ''            </div>\<newline>'' @
        ''            <!-- Panel 3: Inside Right -->\<newline>'' @
        ''            <div class="panel">\<newline>'' @
        ''                <div class="panel-inner">\<newline>'' @
        ''                    '' @ INSIDE_RIGHT_CONTENT @ ''\<newline>'' @
        ''                </div>\<newline>'' @
        ''            </div>\<newline>'' @
        ''        </div>\<newline>'' @
        ''        <div class="fold-indicator"></div>\<newline>'' @
        ''    </div>\<newline>'' @
        ''</body>\<newline>'' @
        ''</html>'')
        (generate_folded_card_html d t s idata itype bd bt)) \<and>
   (py_truthy idata \<and> py_truthy itype \<longrightarrow>
      suffix (
        ''    <!-- Spread 2: Inside (Panel 2 left | Panel 3 right) -->\<newline>'' @
        ''    <div class="spread">\<newline>'' @
        ''        <div class="spread-content">\<newline>'' @
        ''            <!-- Panel 2: Inside Left -->\<newline>'' @
        ''            <div class="panel">\<newline>'' @
        ''                <div class="panel-inner">\<newline>'' @
        ''                    '' @ ''<img class="image" src="data:image/'' @ py_format itype @ '';base64,'' @ py_format idata @ ''" alt="Inside Left" style="object-position: right center;">'' @ ''\<newline>'' @
        ''                </div>\<newline>'' @
        ''            </div>\<newline>'' @
        ''            <!-- Panel 3: Inside Right -->\<newline>'' @
        ''            <div class="panel">\<newline>'' @
        ''                <div class="panel-inner">\<newline>'' @
        ''                    '' @ ''<img class="image" src="data:image/'' @ py_format itype @ '';base64,'' @ py_format idata @ ''" alt="Inside Right" style="object-position: left center;">'' @ ''\<newline>'' @
        ''                </div>\<newline>'' @
        ''            </div>\<newline>'' @
        ''        </div>\<newline>'' @
        ''        \<newline>'' @
        ''    </div>\<newline>'' @
        ''</body>\<newline>'' @
        ''</html>'')
        (generate_folded_card_html d t s idata itype bd bt))\<close>
proof (intro conjI impI)
  assume none: "\<not> (py_truthy idata \<and> py_truthy itype)"
  show \<open>suffix (
        ''    <!-- Spread 2: Inside (Panel 2 left | Panel 3 right) -->\<newline>'' @
        ''    <div class="spread">\<newline>'' @
        ''        <div class="spread-content">\<newline>'' @
        ''            <!-- Panel 2: Inside Left -->\<newline>'' @
        ''            <div class="panel">\<newline>'' @
        ''                <div class="panel-inner">\<newline>'' @
        ''                    '' @ INSIDE_LEFT_CONTENT @ ''\<newline>'' @
        ''                </div>\<newline>'' @
        ''            </div>\<newline>'' @
        ''            <!-- Panel 3: Inside Right -->\<newline>'' @
        ''            <div class="panel">\<newline>'' @
        ''                <div class="panel-inner">\<newline>'' @
        ''                    '' @ INSIDE_RIGHT_CONTENT @ ''\<newline>'' @
        ''                </div>\<newline>'' @
        ''            </div>\<newline>'' @
        ''        </div>\<newline>'' @
        ''        <div class="fold-indicator"></div>\<newline>'' @
        ''    </div>\<newline>'' @
        ''</body>\<newline>'' @
        ''</html>'')
        (generate_folded_card_html d t s idata itype bd bt)\<close>
    using folded_html_inside [of idata itype d t s bd bt]
    unfolding inside_fallback [OF none]
    by (simp add: folded_spread2_def folded_body_close_def)
next
  assume img: "py_truthy idata \<and> py_truthy itype"
  show \<open>suffix (
        ''    <!-- Spread 2: Inside (Panel 2 left | Panel 3 right) -->\<newline>'' @
        ''    <div class="spread">\<newline>'' @
        ''        <div class="spread-content">\<newline>'' @
        ''            <!-- Panel 2: Inside Left -->\<newline>'' @
        ''            <div class="panel">\<newline>'' @
        ''                <div class="panel-inner">\<newline>'' @
        ''                    '' @ ''<img class="image" src="data:image/'' @ py_format itype @ '';base64,'' @ py_format idata @ ''" alt="Inside Left" style="object-position: right center;">'' @ ''\<newline>'' @
        ''                </div>\<newline>'' @
        ''            </div>\<newline>'' @
        ''            <!-- Panel 3: Inside Right -->\<newline>'' @
        ''            <div class="panel">\<newline>'' @
        ''                <div class="panel-inner">\<newline>'' @
        ''                    '' @ ''<img class="image" src="data:image/'' @ py_format itype @ '';base64,'' @ py_format idata @ ''" alt="Inside Right" style="object-position: left center;">'' @ ''\<newline>'' @
        ''                </div>\<newline>'' @
        ''            </div>\<newline>'' @
        ''        </div>\<newline>'' @
        ''        \<newline>'' @
        ''    </div>\<newline>'' @
        ''</body>\<newline>'' @
        ''</html>'')
        (generate_folded_card_html d t s idata itype bd bt)\<close>
    using folded_html_inside [of idata itype d t s bd bt]
    unfolding inside_image [OF img]
    by (simp add: folded_spread2_def folded_body_close_def)
qed

theorem inside_spread_witness:
  \<open>suffix (
      ''    <!-- Spread 2: Inside (Panel 2 left | Panel 3 right) -->\<newline>'' @
      ''    <div class="spread">\<newline>'' @
      ''        <div class="spread-content">\<newline>'' @
      ''            <!-- Panel 2: Inside Left -->\<newline>'' @
      ''            <div class="panel">\<newline>'' @
      ''                <div class="panel-inner">\<newline>'' @
      ''                    '' @ INSIDE_LEFT_CONTENT @ ''\<newline>'' @
      ''                </div>\<newline>'' @
      ''            </div>\<newline>'' @
      ''            <!-- Panel 3: Inside Right -->\<newline>'' @
      ''            <div class="panel">\<newline>'' @
      ''                <div class="panel-inner">\<newline>'' @
      ''                    '' @ INSIDE_RIGHT_CONTENT @ ''\<newline>'' @
      ''                </div>\<newline>'' @
      ''            </div>\<newline>'' @
      ''        </div>\<newline>'' @
      ''        <div class="fold-indicator"></div>\<newline>'' @
      ''    </div>\<newline>'' @
      ''</body>\<newline>'' @
      ''</html>'')
     (generate_folded_card_html (PStr ''QUJD'') (PStr ''png'') Map.empty PNone PNone PNone PNone) \<and>
   suffix (
      ''    <!-- Spread 2: Inside (Panel 2 left | Panel 3 right) -->\<newline>'' @
      ''    <div class="spread">\<newline>'' @
      ''        <div class="spread-content">\<newline>'' @
      ''            <!-- Panel 2: Inside Left -->\<newline>'' @
      ''            <div class="panel">\<newline>'' @
      ''                <div class="panel-inner">\<newline>'' @
      ''                    '' @ ''<img class="image" src="data:image/'' @ py_format (PStr ''jpeg'') @ '';base64,'' @ py_format (PStr ''REVG'') @ ''" alt="Inside Left" style="object-position: right center;">'' @ ''\<newline>'' @
      ''                </div>\<newline>'' @
      ''            </div>\<newline>'' @
      ''            <!-- Panel 3: Inside Right -->\<newline>'' @
      ''            <div class="panel">\<newline>'' @
      ''                <div class="panel-inner">\<newline>'' @
      ''                    '' @ ''<img class="image" src="data:image/'' @ py_format (PStr ''jpeg'') @ '';base64,'' @ py_format (PStr ''REVG'') @ ''" alt="Inside Right" style="object-position: left center;">'' @ ''\<newline>'' @
      ''                </div>\<newline>'' @
      ''            </div>\<newline>'' @
      ''        </div>\<newline>'' @
      ''        \<newline>'' @
      ''    </div>\<newline>'' @
      ''</body>\<newline>'' @
      ''</html>'')
     (generate_folded_card_html (PStr ''QUJD'') (PStr ''png'') Map.empty (PStr ''REVG'') (PStr ''jpeg'') PNone PNone)\<close>
  using inside_spread [where s = "Map.empty" and d = "(PStr ''QUJD'')" and t = "(PStr ''png'')" and bd = "PNone" and bt = "PNone" and idata = "PNone" and itype = "PNone"]
    inside_spread [where s = "Map.empty" and d = "(PStr ''QUJD'')" and t = "(PStr ''png'')" and bd = "PNone" and bt = "PNone" and idata = "(PStr ''REVG'')" and itype = "(PStr ''jpeg'')"]
  by simp

section \<open>The fold indicator of the outside spread\<close>

text \<open>
  C8. Every folded card's document holds the outside spread with a fold indicator element
  after its two panels, whatever the back image and the inside image are: only the
  indicator of the inside spread depends on the inside image.
\<close>

theorem outside_fold_indicator:
  \<open>sublist (
      ''    <!-- Spread 1: Outside (Panel 4 left | Panel 1 right) -->\<newline>'' @
      ''    <!-- When printed and folded, Panel 1 becomes front cover, Panel 4 becomes back -->\<newline>'' @
      ''    <div class="spread">\<newline>'' @
      ''        <div class="spread-content">\<newline>'' @
      ''            <!-- Panel 4: Back Cover (left side of spread) -->\<newline>'' @
      ''            <div class="panel">\<newline>'' @
      ''                <div class="panel-inner">\<newline>'' @
      ''                    '' @ folded_back_panel_content bd bt @ ''\<newline>'' @
      ''                </div>\<newline>'' @
      ''            </div>\<newline>'' @
      ''            <!-- Panel 1: Front Cover (right side of spread) - uploaded image -->\<newline>'' @
      ''            <div class="panel">\<newline>'' @
      ''                <div class="panel-inner">\<newline>'' @
      ''                    <img class="image" src="data:image/'' @ py_format t @ '';base64,'' @ py_format d @ ''" alt="Front Cover">\<newline>'' @
      ''                </div>\<newline>'' @
      ''            </div>\<newline>'' @
      ''        </div>\<newline>'' @
      ''        <div class="fold-indicator"></div>\<newline>'' @
      ''    </div>'')
     (generate_folded_card_html d t s idata itype bd bt)\<close>
  using folded_html_spread1 [of bd bt t d s idata itype]
  by (simp add: folded_spread1_def)

theorem outside_fold_indicator_witness:
  \<open>sublist (
      ''    <!-- Spread 1: Outside (Panel 4 left | Panel 1 right) -->\<newline>'' @
      ''    <!-- When printed and folded, Panel 1 becomes front cover, Panel 4 becomes back -->\<newline>'' @
      ''    <div class="spread">\<newline>'' @
      ''        <div class="spread-content">\<newline>'' @
      ''            <!-- Panel 4: Back Cover (left side of spread) -->\<newline>'' @
      ''            <div class="panel">\<newline>'' @
      ''                <div class="panel-inner">\<newline>'' @
      ''                    '' @ folded_back_panel_content (PStr ''R0hJ'') (PStr ''gif'') @ ''\<newline>'' @
      ''                </div>\<newline>'' @
      ''            </div>\<newline>'' @
      ''            <!-- Panel 1: Front Cover (right side of spread) - uploaded image -->\<newline>'' @
      ''            <div class="panel">\<newline>'' @
      ''                <div class="panel-inner">\<newline>'' @
      ''                    <img class="image" src="data:image/'' @ py_format (PStr ''png'') @ '';base64,'' @ py_format (PStr ''QUJD'') @ ''" alt="Front Cover">\<newline>'' @
      ''                </div>\<newline>'' @
      ''            </div>\<newline>'' @
      ''        </div>\<newline>'' @
      ''        <div class="fold-indicator"></div>\<newline>'' @
      ''    </div>'')
     (generate_folded_card_html (PStr ''QUJD'') (PStr ''png'') Map.empty (PStr ''REVG'') (PStr ''jpeg'') (PStr ''R0hJ'') (PStr ''gif''))\<close>
  using outside_fold_indicator [where s = "Map.empty" and d = "(PStr ''QUJD'')" and t = "(PStr ''png'')" and bd = "(PStr ''R0hJ'')" and bt = "(PStr ''gif'')" and idata = "(PStr ''REVG'')" and itype = "(PStr ''jpeg'')"]
  by simp

section \<open>The order of pages and spreads\<close>

text \<open>
  C7. A flat card's document ends with a body of two \<^verbatim>\<open>page\<close> elements, the front image
  and then the back (image or fallback). A folded card's document ends with a body of two
  \<^verbatim>\<open>spread\<close> elements: the outside spread, whose first (left) panel is the back and
  whose second (right) panel is the front image, and then the inside spread, whose panels
  are the inside left and the inside right. In both documents the style sheet forces a
  page break after every page or spread (\<^verbatim>\<open>page-break-after: always\<close>) and suppresses it
  after the last one (\<^verbatim>\<open>:last-child\<close>, \<^verbatim>\<open>page-break-after: avoid\<close>).
\<close>

theorem page_sequence:
  \<open>suffix (
      ''<body>\<newline>'' @
      ''    <!-- Page 1: Front (uploaded image) -->\<newline>'' @
      ''    <div class="page">\<newline>'' @
      ''        <div class="page-content">\<newline>'' @
      ''            <img class="image" src="data:image/'' @ py_format t @ '';base64,'' @ py_format d @ ''" alt="Card Front">\<newline>'' @
      ''        </div>\<newline>'' @
      ''    </div>\<newline>'' @
      ''    \<newline>'' @
      ''    <!-- Page 2: Back -->\<newline>'' @
      ''    <div class="page">\<newline>'' @
      ''        <div class="back-page-content">\<newline>'' @
      ''            '' @ flat_back_content bd bt @ ''\<newline>'' @
      ''        </div>\<newline>'' @
      ''    </div>\<newline>'' @
      ''</body>\<newline>'' @
      ''</html>'')
     (generate_flat_card_html d t s bd bt) \<and>
   sublist (
      ''\<newline>'' @
      ''        \<newline>'' @
      ''        .page {\<newline>'' @
      ''            position: relative;\<newline>'' @
      ''            width: 4.75in;\<newline>'' @
      ''            height: 6.75in;\<newline>'' @
      ''            page-break-after: always;\<newline>'' @
      ''            overflow: visible;\<newline>'' @
      ''        }\<newline>'' @
      ''        \<newline>'' @
      ''        .page:last-child {\<newline>'' @
      ''            page-break-after: avoid;\<newline>'' @
      ''        }'')
     (generate_flat_card_html d t s bd bt) \<and>
   suffix (
      ''<body>\<newline>'' @
      ''    <!-- Spread 1: Outside (Panel 4 left | Panel 1 right) -->\<newline>'' @
      ''    <!-- When printed and folded, Panel 1 becomes front cover, Panel 4 becomes back -->\<newline>'' @
      ''    <div class="spread">\<newline>'' @
      ''        <div class="spread-content">\<newline>'' @
      ''            <!-- Panel 4: Back Cover (left side of spread) -->\<newline>'' @
      ''            <div class="panel">\<newline>'' @
      ''                <div class="panel-inner">\<newline>'' @
      ''                    '' @ folded_back_panel_content bd bt @ ''\<newline>'' @
      ''                </div>\<newline>'' @
      ''            </div>\<newline>'' @
      ''            <!-- Panel 1: Front Cover (right side of spread) - uploaded image -->\<newline>'' @
      ''            <div class="panel">\<newline>'' @
      ''                <div class="panel-inner">\<newline>'' @
      ''                    <img class="image" src="data:image/'' @ py_format t @ '';base64,'' @ py_format d @ ''" alt="Front Cover">\<newline>'' @
      ''                </div>\<newline>'' @
      ''            </div>\<newline>'' @
      ''        </div>\<newline>'' @
      ''        <div class="fold-indicator"></div>\<newline>'' @
      ''    </div>\<newline>'' @
      ''    \<newline>'' @
      ''    <!-- Spread 2: Inside (Panel 2 left | Panel 3 right) -->\<newline>'' @
      ''    <div class="spread">\<newline>'' @
      ''        <div class="spread-content">\<newline>'' @
      ''            <!-- Panel 2: Inside Left -->\<newline>'' @
      ''            <div class="panel">\<newline>'' @
      ''                <div class="panel-inner">\<newline>'' @
      ''                    '' @ folded_inside_left_content idata itype @ ''\<newline>'' @
      ''                </div>\<newline>'' @
      ''            </div>\<newline>'' @
      ''            <!-- Panel 3: Inside Right -->\<newline>'' @
      ''            <div class="panel">\<newline>'' @
      ''                <div class="panel-inner">\<newline>'' @
      ''                    '' @ folded_inside_right_content idata itype @ ''\<newline>'' @
      ''                </div>\<newline>'' @
      ''            </div>\<newline>'' @
      ''        </div>\<newline>'' @
      ''        '' @ folded_inside_fold_indicator idata itype @ ''\<newline>'' @
      ''    </div>\<newline>'' @
      ''</body>\<newline>'' @
      ''</html>'')
     (generate_folded_card_html d t s idata itype bd bt) \<and>
   sublist (
      ''\<newline>'' @
      ''        \<newline>'' @
      ''        .spread {\<newline>'' @
      ''            position: relative;\<newline>'' @
      ''            width: 9.5in;\<newline>'' @
      ''            height: 6.75in;\<newline>'' @
      ''            page-break-after: always;\<newline>'' @
      ''            overflow: visible;\<newline>'' @
      ''        }\<newline>'' @
      ''        \<newline>'' @
      ''        .spread:last-child {\<newline>'' @
      ''            page-break-after: avoid;\<newline>'' @
      ''        }'')
     (generate_folded_card_html d t s idata itype bd bt)\<close>
  using flat_html_suffix [of t d bd bt s] flat_html_break_rules [of d t s bd bt]
    folded_html_suffix [of bd bt t d idata itype s]
    folded_html_break_rules [of d t s idata itype bd bt]
  by (simp add: flat_body_def flat_page_class_rule_def flat_last_child_rule_def flat_trim_str
      folded_body_open_def folded_spread1_def folded_spread_gap_def folded_spread2_def
      folded_body_close_def folded_spread_class_rule_def folded_last_child_rule_def folded_trim_str)

theorem page_sequence_witness:
  \<open>suffix (
      ''<body>\<newline>'' @
      ''    <!-- Page 1: Front (uploaded image) -->\<newline>'' @
      ''    <div class="page">\<newline>'' @
      ''        <div class="page-content">\<newline>'' @
      ''            <img class="image" src="data:image/'' @ py_format (PStr ''png'') @ '';base64,'' @ py_format (PStr ''QUJD'') @ ''" alt="Card Front">\<newline>'' @
      ''        </div>\<newline>'' @
      ''    </div>\<newline>'' @
      ''    \<newline>'' @
      ''    <!-- Page 2: Back -->\<newline>'' @
      ''    <div class="page">\<newline>'' @
      ''        <div class="back-page-content">\<newline>'' @
      ''            '' @ flat_back_content (PStr ''R0hJ'') (PStr ''gif'') @ ''\<newline>'' @
      ''        </div>\<newline>'' @
      ''    </div>\<newline>'' @
      ''</body>\<newline>'' @
      ''</html>'')
     (generate_flat_card_html (PStr ''QUJD'') (PStr ''png'') Map.empty (PStr ''R0hJ'') (PStr ''gif'')) \<and>
   suffix (
      ''<body>\<newline>'' @
      ''    <!-- Spread 1: Outside (Panel 4 left | Panel 1 right) -->\<newline>'' @
      ''    <!-- When printed and folded, Panel 1 becomes front cover, Panel 4 becomes back -->\<newline>'' @
      ''    <div class="spread">\<newline>'' @
      ''        <div class="spread-content">\<newline>'' @
      ''            <!-- Panel 4: Back Cover (left side of spread) -->\<newline>'' @
      ''            <div class="panel">\<newline>'' @
      ''                <div class="panel-inner">\<newline>'' @
      ''                    '' @ folded_back_panel_content (PStr ''R0hJ'') (PStr ''gif'') @ ''\<newline>'' @
      ''                </div>\<newline>'' @
      ''            </div>\<newline>'' @
      ''            <!-- Panel 1: Front Cover (right side of spread) - uploaded image -->\<newline>'' @
      ''            <div class="panel">\<newline>'' @
      ''                <div class="panel-inner">\<newline>'' @
      ''                    <img class="image" src="data:image/'' @ py_format (PStr ''png'') @ '';base64,'' @ py_format (PStr ''QUJD'') @ ''" alt="Front Cover">\<newline>'' @
      ''                </div>\<newline>'' @
      ''            </div>\<newline>'' @
      ''        </div>\<newline>'' @
      ''        <div class="fold-indicator"></div>\<newline>'' @
      ''    </div>\<newline>'' @
      ''    \<newline>'' @
      ''    <!-- Spread 2: Inside (Panel 2 left | Panel 3 right) -->\<newline>'' @
      ''    <div class="spread">\<newline>'' @
      ''        <div class="spread-content">\<newline>'' @
      ''            <!-- Panel 2: Inside Left -->\<newline>'' @
      ''            <div class="panel">\<newline>'' @
      ''                <div class="panel-inner">\<newline>'' @
      ''                    '' @ folded_inside_left_content (PStr ''REVG'') (PStr ''jpeg'') @ ''\<newline>'' @
      ''                </div>\<newline>'' @
      ''            </div>\<newline>'' @
      ''            <!-- Panel 3: Inside Right -->\<newline>'' @
      ''            <div class="panel">\<newline>'' @
      ''                <div class="panel-inner">\<newline>'' @
      ''                    '' @ folded_inside_right_content (PStr ''REVG'') (PStr ''jpeg'') @ ''\<newline>'' @
      ''                </div>\<newline>'' @
      ''            </div>\<newline>'' @
      ''        </div>\<newline>'' @
      ''        '' @ folded_inside_fold_indicator (PStr ''REVG'') (PStr ''jpeg'') @ ''\<newline>'' @
      ''    </div>\<newline>'' @
      ''</body>\<newline>'' @
      ''</html>'')
     (generate_folded_card_html (PStr ''QUJD'') (PStr ''png'') Map.empty (PStr ''REVG'') (PStr ''jpeg'') (PStr ''R0hJ'') (PStr ''gif''))\<close>
  using page_sequence [where s = "Map.empty" and d = "(PStr ''QUJD'')" and t = "(PStr ''png'')" and bd = "(PStr ''R0hJ'')" and bt = "(PStr ''gif'')" and idata = "(PStr ''REVG'')" and itype = "(PStr ''jpeg'')"]
  by simp

section \<open>The colour directive\<close>

lemma prince_pdf_css_empty_iff:
  "(prince_pdf_css s = []) =
     (\<not> py_truthy (dict_get s ''pdf_profile'' (PStr ''PDF/X-4'')) \<and>
      \<not> py_truthy (dict_get s ''use_true_black'' (PBool True)) \<and>
      \<not> py_truthy (dict_get s ''use_cmyk_colors'' (PBool False)) \<and>
      \<not> py_truthy (dict_get s ''icc_base64'' PNone))"
  by (auto simp add: prince_pdf_css_def profile_lines_def color_lines_def color_options_def
      output_intent_lines_def Let_def)

text \<open>
  C5. With the profile \<^verbatim>\<open>PDF/X-1a\<close>, both colour flags true and the ICC bytes
  \<^verbatim>\<open>00 01\<close>, whose base64 encoding is \<^verbatim>\<open>AAE=\<close>, the directive is the
  \<^verbatim>\<open>@prince-pdf\<close> block with the profile string, then the colour options
  \<^verbatim>\<open>use-true-black use-cmyk-colors\<close> in that order, then the output intent as a data URI
  of type \<^verbatim>\<open>application/vnd.iccprofile\<close> with the payload \<^verbatim>\<open>AAE=\<close>.
\<close>

theorem color_directive_example:
  assumes "s ''pdf_profile'' = Some (PStr ''PDF/X-1a'')"
    and "s ''use_true_black'' = Some (PBool True)"
    and "s ''use_cmyk_colors'' = Some (PBool True)"
    and "s ''icc_base64'' = Some (icc_base64_of_bytes [0x00, 0x01])"
  shows \<open>icc_base64_of_bytes [0x00, 0x01] = PStr ''AAE='' \<and>
     get_prince_pdf_css s =
       ''\<newline>'' @
       ''        @prince-pdf {\<newline>'' @
       ''                        prince-pdf-profile: "PDF/X-1a";\<newline>'' @
       ''            prince-pdf-color-options: use-true-black use-cmyk-colors;\<newline>'' @
       ''            prince-pdf-output-intent: url("data:application/vnd.iccprofile;base64,AAE=");\<newline>'' @
       ''        }\<newline>'' @
       ''        ''\<close>
  using assms
  by (simp add: get_prince_pdf_css_def prince_pdf_css_def profile_lines_def color_lines_def
      color_options_def output_intent_lines_def dict_get_def icc_base64_of_bytes_def b64_char_def)

theorem color_directive_example_witness:
  \<open>icc_base64_of_bytes [0x00, 0x01] = PStr ''AAE='' \<and>
   get_prince_pdf_css
     [''pdf_profile'' \<mapsto> PStr ''PDF/X-1a'', ''use_true_black'' \<mapsto> PBool True,
      ''use_cmyk_colors'' \<mapsto> PBool True, ''icc_base64'' \<mapsto> icc_base64_of_bytes [0x00, 0x01]] =
       ''\<newline>'' @
       ''        @prince-pdf {\<newline>'' @
       ''                        prince-pdf-profile: "PDF/X-1a";\<newline>'' @
       ''            prince-pdf-color-options: use-true-black use-cmyk-colors;\<newline>'' @
       ''            prince-pdf-output-intent: url("data:application/vnd.iccprofile;base64,AAE=");\<newline>'' @
       ''        }\<newline>'' @
       ''        ''\<close>
  by (rule color_directive_example) simp_all

text \<open>
  C6. The directive is the empty string exactly when no rule produces a line: the profile
  is empty (or otherwise falsy), \<^verbatim>\<open>use_true_black\<close> is present and false,
  \<^verbatim>\<open>use_cmyk_colors\<close> is false or missing, and there is no ICC string. In particular the
  builder never returns an \<^verbatim>\<open>@prince-pdf\<close> block without a line in it.
\<close>

theorem empty_directive:
  "(get_prince_pdf_css s = '''') =
     (\<not> py_truthy (dict_get s ''pdf_profile'' (PStr ''PDF/X-4'')) \<and>
      \<not> py_truthy (dict_get s ''use_true_black'' (PBool True)) \<and>
      \<not> py_truthy (dict_get s ''use_cmyk_colors'' (PBool False)) \<and>
      \<not> py_truthy (dict_get s ''icc_base64'' PNone))"
  unfolding prince_pdf_css_empty_iff [symmetric]
  by (simp add: get_prince_pdf_css_def)

theorem empty_directive_witness:
  "get_prince_pdf_css
     [''pdf_profile'' \<mapsto> PStr '''', ''use_true_black'' \<mapsto> PBool False,
      ''use_cmyk_colors'' \<mapsto> PBool False, ''icc_base64'' \<mapsto> PNone] = ''''"
  using empty_directive
    [where s = "[''pdf_profile'' \<mapsto> PStr '''', ''use_true_black'' \<mapsto> PBool False,
                 ''use_cmyk_colors'' \<mapsto> PBool False, ''icc_base64'' \<mapsto> PNone]"]
  by (simp add: dict_get_def)

text \<open>Joined strings contain their elements, and start with the first.\<close>

lemma py_join_Cons: "\<exists>r. py_join sep (x # xs) = x @ r"
  by (cases xs) simp_all

lemma sublist_py_join: "x \<in> set xs \<Longrightarrow> sublist x (py_join sep xs)"
proof (induction sep xs rule: py_join.induct)
  case (1 sep)
  then show ?case by simp
next
  case (2 sep y)
  then show ?case by simp
next
  case (3 sep y z zs)
  show ?case
  proof (cases "x = y")
    case True
    then show ?thesis by simp
  next
    case False
    with "3.prems" have "x \<in> set (z # zs)" by simp
    then have "sublist x (py_join sep (z # zs))" by (rule "3.IH")
    then have "sublist x (y @ sep @ py_join sep (z # zs))"
      by (intro sublist_skip)
    then show ?thesis by simp
  qed
qed

lemma sublist_directive:
  assumes "css \<in> set (prince_pdf_css s)"
  shows "sublist css (get_prince_pdf_css s)"
proof -
  let ?ind = "\<lambda>css. ''            '' @ css"
  from assms have ne: "prince_pdf_css s \<noteq> []" by auto
  from assms have "?ind css \<in> set (map ?ind (prince_pdf_css s))" by simp
  then have "sublist (?ind css) (py_join ''\<newline>'' (map ?ind (prince_pdf_css s)))"
    by (rule sublist_py_join)
  moreover have "sublist css (?ind css)" by (rule sublist_append_leftI)
  ultimately have "sublist css (py_join ''\<newline>'' (map ?ind (prince_pdf_css s)))"
    by (rule sublist_order.order.trans [rotated])
  then have joined: "sublist css (py_join ''\<newline>'' (map ?ind (prince_pdf_css s)) @
      ''\<newline>'' @ ''        }\<newline>'' @ ''        '')"
    by (rule sublist_order.order.trans [OF _ sublist_append_rightI])
  have "sublist css (''\<newline>'' @ ''        @prince-pdf {\<newline>'' @ ''            '' @
      py_join ''\<newline>'' (map ?ind (prince_pdf_css s)) @
      ''\<newline>'' @ ''        }\<newline>'' @ ''        '')"
    by (rule sublist_skip, rule sublist_skip, rule sublist_skip, rule joined)
  with ne show ?thesis
    by (simp only: get_prince_pdf_css_def if_True not_False_eq_True)
qed

text \<open>
  C9. A settings dictionary without the key \<^verbatim>\<open>use_true_black\<close> gets the option: the
  default of the lookup is \<^verbatim>\<open>True\<close>, the keyword is the first colour option, and the
  directive has the line \<^verbatim>\<open>prince-pdf-color-options: use-true-black\<close>. The other boolean
  settings the markup engine reads default to false: without the key \<^verbatim>\<open>use_cmyk_colors\<close>
  there is no \<^verbatim>\<open>use-cmyk-colors\<close> option, and without \<^verbatim>\<open>add_bleed\<close> there is no bleed.
\<close>

theorem true_black_default:
  "(s ''use_true_black'' = None \<longrightarrow>
      color_options s =
        ''use-true-black'' #
        (if py_truthy (dict_get s ''use_cmyk_colors'' (PBool False)) then [''use-cmyk-colors''] else []) \<and>
      sublist ''prince-pdf-color-options: use-true-black'' (get_prince_pdf_css s)) \<and>
   (s ''use_cmyk_colors'' = None \<longrightarrow> ''use-cmyk-colors'' \<notin> set (color_options s)) \<and>
   (s ''add_bleed'' = None \<longrightarrow> flat_bleed s = PyInt 0 \<and> folded_bleed s = PyInt 0)"
proof (intro conjI impI)
  assume missing: "s ''use_true_black'' = None"
  then show opts: "color_options s =
      ''use-true-black'' #
      (if py_truthy (dict_get s ''use_cmyk_colors'' (PBool False)) then [''use-cmyk-colors''] else [])"
    by (simp add: color_options_def dict_get_def)
  define line where
    "line = ''prince-pdf-color-options: '' @ py_join '' '' (color_options s) @ '';''"
  from opts have "line \<in> set (prince_pdf_css s)"
    by (simp add: prince_pdf_css_def color_lines_def line_def)
  then have in_css: "sublist line (get_prince_pdf_css s)"
    by (rule sublist_directive)
  from opts py_join_Cons [of "'' ''" "''use-true-black''"]
  obtain r where "py_join '' '' (color_options s) = ''use-true-black'' @ r"
    by metis
  then have "line = (''prince-pdf-color-options: '' @ ''use-true-black'') @ r @ '';''"
    by (simp add: line_def)
  then have "sublist (''prince-pdf-color-options: '' @ ''use-true-black'') line"
    by (simp only: sublist_append_rightI)
  then have "sublist ''prince-pdf-color-options: use-true-black'' line"
    by simp
  then show "sublist ''prince-pdf-color-options: use-true-black'' (get_prince_pdf_css s)"
    using in_css by (rule sublist_order.order.trans)
next
  assume "s ''use_cmyk_colors'' = None"
  then show "''use-cmyk-colors'' \<notin> set (color_options s)"
    by (simp add: color_options_def dict_get_def)
next
  assume "s ''add_bleed'' = None"
  then show "flat_bleed s = PyInt 0" "folded_bleed s = PyInt 0"
    by (simp_all add: flat_bleed_def folded_bleed_def dict_get_def)
qed

theorem true_black_default_witness:
  "color_options Map.empty = [''use-true-black''] \<and>
   sublist ''prince-pdf-color-options: use-true-black'' (get_prince_pdf_css Map.empty) \<and>
   ''use-cmyk-colors'' \<notin> set (color_options Map.empty) \<and>
   flat_bleed Map.empty = PyInt 0 \<and> folded_bleed Map.empty = PyInt 0"
  using true_black_default [where s = Map.empty]
  by (simp add: dict_get_def)

section \<open>The assembler\<close>

text \<open>The flat generator reads the settings through these keys only.\<close>

lemma prince_pdf_css_cong:
  assumes "s1 ''pdf_profile'' = s2 ''pdf_profile''"
    and "s1 ''use_true_black'' = s2 ''use_true_black''"
    and "s1 ''use_cmyk_colors'' = s2 ''use_cmyk_colors''"
    and "s1 ''icc_base64'' = s2 ''icc_base64''"
  shows "get_prince_pdf_css s1 = get_prince_pdf_css s2"
proof -
  have "profile_lines s1 = profile_lines s2"
    using assms(1) by (simp add: profile_lines_def dict_get_def)
  moreover have "color_options s1 = color_options s2"
    using assms(2,3) by (simp add: color_options_def dict_get_def)
  then have "color_lines s1 = color_lines s2"
    by (simp add: color_lines_def)
  moreover have "output_intent_lines s1 = output_intent_lines s2"
    using assms(4) by (simp add: output_intent_lines_def dict_get_def)
  ultimately have "prince_pdf_css s1 = prince_pdf_css s2"
    by (simp add: prince_pdf_css_def)
  then show ?thesis
    by (simp only: get_prince_pdf_css_def)
qed

lemma flat_card_cong:
  assumes "get_prince_pdf_css s1 = get_prince_pdf_css s2"
    and "s1 ''add_bleed'' = s2 ''add_bleed''"
    and "s1 ''image_fit'' = s2 ''image_fit''"
    and "s1 ''background_color'' = s2 ''background_color''"
  shows "generate_flat_card_html d t s1 bd bt = generate_flat_card_html d t s2 bd bt"
  using assms
  by (simp add: generate_flat_card_html_def flat_bleed_def flat_marks_def flat_total_width_def
      flat_total_height_def dict_get_def)

text \<open>
  C2, as the code has it. The assembler rejects nothing: whatever \<^verbatim>\<open>card_type\<close> is, if it
  is not the string \<^verbatim>\<open>folded\<close> (an unknown name, a value that is not a string, or no
  key at all), the result is the flat card's document for the same images and settings.
\<close>

theorem other_card_types_are_flat:
  assumes "dict_get s ''card_type'' (PStr ''flat'') \<noteq> PStr ''folded''"
  shows "generate_html_for_image d t s a =
     generate_flat_card_html d t s
       (image_field (or_empty a) ''back'' ''data'') (image_field (or_empty a) ''back'' ''type'')"
  using assms by (simp add: generate_html_for_image_def Let_def)

theorem other_card_types_are_flat_witness:
  "generate_html_for_image (PStr ''QUJD'') (PStr ''png'') [''card_type'' \<mapsto> PStr ''postcard''] None =
   generate_flat_card_html (PStr ''QUJD'') (PStr ''png'') [''card_type'' \<mapsto> PStr ''postcard'']
     PNone PNone"
  using other_card_types_are_flat
    [where s = "[''card_type'' \<mapsto> PStr ''postcard'']" and d = "PStr ''QUJD''"
       and t = "PStr ''png''" and a = None]
  by (simp add: dict_get_def image_field_def or_empty_def)

text \<open>
  The claim as the specification states it fails. A request with the form field
  \<^verbatim>\<open>card_type=postcard\<close> and the image \<^verbatim>\<open>a.png\<close> (the bytes \<^verbatim>\<open>ABC\<close>) passes every check
  of the handler, which returns a document: the flat card's, the same document as for
  \<^verbatim>\<open>card_type=flat\<close>. The assembler called directly does the same.
\<close>

theorem invalid_card_type_counterexample:
  "preview_html (\<lambda>name. PNone)
     \<lparr>form = [''card_type'' \<mapsto> ''postcard''],
      files = [''image'' \<mapsto> \<lparr>filename = ''a.png'', content = [0x41, 0x42, 0x43]\<rparr>]\<rparr> =
   Inr (generate_flat_card_html (PStr ''QUJD'') (PStr ''png'')
     [''card_type'' \<mapsto> PStr ''flat'', ''pdf_profile'' \<mapsto> PStr ''PDF/X-4'',
      ''icc_base64'' \<mapsto> PNone, ''add_bleed'' \<mapsto> PBool False,
      ''use_true_black'' \<mapsto> PBool False, ''use_cmyk_colors'' \<mapsto> PBool False,
      ''image_fit'' \<mapsto> PStr ''cover'', ''background_color'' \<mapsto> PStr ''#ffffff'']
     PNone PNone) \<and>
   preview_html (\<lambda>name. PNone)
     \<lparr>form = [''card_type'' \<mapsto> ''postcard''],
      files = [''image'' \<mapsto> \<lparr>filename = ''a.png'', content = [0x41, 0x42, 0x43]\<rparr>]\<rparr> =
   preview_html (\<lambda>name. PNone)
     \<lparr>form = [''card_type'' \<mapsto> ''flat''],
      files = [''image'' \<mapsto> \<lparr>filename = ''a.png'', content = [0x41, 0x42, 0x43]\<rparr>]\<rparr> \<and>
   generate_html_for_image (PStr ''QUJD'') (PStr ''png'') [''card_type'' \<mapsto> PStr ''postcard''] None =
   generate_html_for_image (PStr ''QUJD'') (PStr ''png'') [''card_type'' \<mapsto> PStr ''flat''] None"
proof -
  let ?p = "[''card_type'' \<mapsto> PStr ''postcard'']" and ?f = "[''card_type'' \<mapsto> PStr ''flat'']"
  let ?rest = "\<lambda>c. [''card_type'' \<mapsto> PStr c, ''pdf_profile'' \<mapsto> PStr ''PDF/X-4'',
      ''icc_base64'' \<mapsto> PNone, ''add_bleed'' \<mapsto> PBool False,
      ''use_true_black'' \<mapsto> PBool False, ''use_cmyk_colors'' \<mapsto> PBool False,
      ''image_fit'' \<mapsto> PStr ''cover'', ''background_color'' \<mapsto> PStr ''#ffffff'']"
  have "get_prince_pdf_css ?p = get_prince_pdf_css ?f"
    by (rule prince_pdf_css_cong) simp_all
  then have direct: "generate_flat_card_html (PStr ''QUJD'') (PStr ''png'') ?p PNone PNone =
      generate_flat_card_html (PStr ''QUJD'') (PStr ''png'') ?f PNone PNone"
    by (rule flat_card_cong) simp_all
  have "get_prince_pdf_css (?rest ''postcard'') = get_prince_pdf_css (?rest ''flat'')"
    by (rule prince_pdf_css_cong) simp_all
  then have served: "generate_flat_card_html (PStr ''QUJD'') (PStr ''png'') (?rest ''postcard'') PNone PNone =
      generate_flat_card_html (PStr ''QUJD'') (PStr ''png'') (?rest ''flat'') PNone PNone"
    by (rule flat_card_cong) simp_all
  have handler: "preview_html (\<lambda>name. PNone)
       \<lparr>form = [''card_type'' \<mapsto> c],
        files = [''image'' \<mapsto> \<lparr>filename = ''a.png'', content = [0x41, 0x42, 0x43]\<rparr>]\<rparr> =
     Inr (generate_html_for_image (PStr ''QUJD'') (PStr ''png'') (?rest c) (Some Map.empty))" for c
    by (simp add: preview_html_def allowed_file_def rsplit_ext_def ascii_lower_def
        ALLOWED_EXTENSIONS_def image_type_of_def b64_char_def dict_get_def Let_def)
  have flat: "generate_html_for_image (PStr ''QUJD'') (PStr ''png'') (?rest c) (Some Map.empty) =
      generate_flat_card_html (PStr ''QUJD'') (PStr ''png'') (?rest c) PNone PNone"
    if "c \<noteq> ''folded''" for c
    using that
    by (simp add: generate_html_for_image_def Let_def dict_get_def image_field_def or_empty_def)
  show ?thesis
    using direct served
    by (simp add: handler flat)
      (simp add: generate_html_for_image_def Let_def dict_get_def image_field_def or_empty_def)
qed

text \<open>
  C10. For a flat card (\<^verbatim>\<open>card_type\<close> is \<^verbatim>\<open>flat\<close> or missing), two runs whose additional
  images agree on the back image produce the same document, whatever inside image each of
  them carries: the flat generator is never given the inside image.
\<close>

theorem flat_ignores_inside_image:
  assumes "dict_get s ''card_type'' (PStr ''flat'') = PStr ''flat''"
    and "or_empty a1 ''back'' = or_empty a2 ''back''"
  shows "generate_html_for_image d t s a1 = generate_html_for_image d t s a2"
  using assms by (simp add: generate_html_for_image_def image_field_def Let_def dict_get_def)

theorem flat_ignores_inside_image_witness:
  "generate_html_for_image (PStr ''QUJD'') (PStr ''png'') [''card_type'' \<mapsto> PStr ''flat'']
     (Some [''inside'' \<mapsto> [''data'' \<mapsto> PStr ''REVG'', ''type'' \<mapsto> PStr ''jpeg'']]) =
   generate_html_for_image (PStr ''QUJD'') (PStr ''png'') [''card_type'' \<mapsto> PStr ''flat'']
     (Some [''inside'' \<mapsto> [''data'' \<mapsto> PStr ''R0hJ'', ''type'' \<mapsto> PStr ''gif'']]) \<and>
   generate_html_for_image (PStr ''QUJD'') (PStr ''png'') [''card_type'' \<mapsto> PStr ''flat'']
     (Some [''inside'' \<mapsto> [''data'' \<mapsto> PStr ''REVG'', ''type'' \<mapsto> PStr ''jpeg'']]) =
   generate_html_for_image (PStr ''QUJD'') (PStr ''png'') [''card_type'' \<mapsto> PStr ''flat''] None"
  using flat_ignores_inside_image
    [where s = "[''card_type'' \<mapsto> PStr ''flat'']" and d = "PStr ''QUJD''" and t = "PStr ''png''"
       and ?a1.0 = "Some [''inside'' \<mapsto> [''data'' \<mapsto> PStr ''REVG'', ''type'' \<mapsto> PStr ''jpeg'']]"
       and ?a2.0 = "Some [''inside'' \<mapsto> [''data'' \<mapsto> PStr ''R0hJ'', ''type'' \<mapsto> PStr ''gif'']]"]
    flat_ignores_inside_image
    [where s = "[''card_type'' \<mapsto> PStr ''flat'']" and d = "PStr ''QUJD''" and t = "PStr ''png''"
       and ?a1.0 = "Some [''inside'' \<mapsto> [''data'' \<mapsto> PStr ''REVG'', ''type'' \<mapsto> PStr ''jpeg'']]"
       and ?a2.0 = None]
  by (simp add: dict_get_def or_empty_def)

end
